theory Spec2Isabelle
  imports Main
begin

section \<open>JavaScript values\<close>

text \<open>
  The engine and the nodes are TypeScript. A value of type \<open>any\<close> is a \<open>jsval\<close>:
  \<open>undefined\<close>, \<open>null\<close>, a boolean, a number, a string, an array, an ordinary object
  (prototype \<open>Object.prototype\<close>, given by the list of its own properties) or an object
  without prototype (\<open>Object.create(null)\<close> and its own properties). Functions, symbols
  and objects with methods of their own are outside the model.

  The code never computes with a number except through \<open>*\<close>, which is a parameter
  below; it copies numbers, tests them and prints them. A number is therefore represented
  by the text that \<open>String\<close> gives for it: \<open>1\<close>, \<open>0.5\<close>, \<open>1e+21\<close>, \<open>NaN\<close>,
  \<open>Infinity\<close>. Both zeros print as \<open>0\<close> and are not told apart.

  A \<open>Record<string, any>\<close> (the type \<open>WorkflowData\<close>, the parameter and credential
  bags) is a map from property names to values.
\<close>

datatype jsval =
    JUndefined
  | JNull
  | JBool bool
  | JNum string
  | JStr string
  | JArr "jsval list"
  | JObj "(string \<times> jsval) list"
  | JNullProto "(string \<times> jsval) list"

type_synonym WorkflowData = "string \<rightharpoonup> jsval"

text \<open>ToBoolean: what \<open>!v\<close> and \<open>v || d\<close> test.\<close>

fun truthy :: "jsval \<Rightarrow> bool" where
  "truthy JUndefined = False"
| "truthy JNull = False"
| "truthy (JBool b) = b"
| "truthy (JNum s) = (s \<noteq> ''0'' \<and> s \<noteq> ''NaN'')"
| "truthy (JStr s) = (s \<noteq> [])"
| "truthy (JArr xs) = True"
| "truthy (JObj ps) = True"
| "truthy (JNullProto ps) = True"

text \<open>
  What a \<open>throw\<close> raises: an \<open>Error\<close> object (a \<open>TypeError\<close> is one) with its
  message, or any other value.
\<close>

datatype js_thrown = JsError string | JsValue jsval

text \<open>
  \<open>String(v)\<close>, which on these values is also what a template literal \<open>`${v}`\<close>
  inserts. The conversion of an object looks for a callable \<open>toString\<close>, then for a
  \<open>valueOf\<close> that returns a primitive: an ordinary object inherits both and prints as
  \<open>[object Object]\<close>, unless an own property \<open>toString\<close> (never callable here) hides
  the inherited one; an object without prototype has neither. In those cases the
  conversion throws a \<open>TypeError\<close>. An array prints its elements separated by commas,
  \<open>undefined\<close> and \<open>null\<close> as nothing.
\<close>

fun js_String :: "jsval \<Rightarrow> js_thrown + string"
  and js_join :: "jsval list \<Rightarrow> js_thrown + string" where
  "js_String JUndefined = Inr ''undefined''"
| "js_String JNull = Inr ''null''"
| "js_String (JBool b) = Inr (if b then ''true'' else ''false'')"
| "js_String (JNum s) = Inr s"
| "js_String (JStr s) = Inr s"
| "js_String (JArr xs) = js_join xs"
| "js_String (JObj ps) =
     (if ''toString'' \<in> fst ` set ps
      then Inl (JsError ''Cannot convert object to primitive value'')
      else Inr ''[object Object]'')"
| "js_String (JNullProto ps) = Inl (JsError ''Cannot convert object to primitive value'')"
| "js_join [] = Inr []"
| "js_join (x # xs) =
     (case (if x = JUndefined \<or> x = JNull then Inr [] else js_String x) of
        Inl e \<Rightarrow> Inl e
      | Inr s \<Rightarrow>
          (if xs = [] then Inr s
           else (case js_join xs of Inl e \<Rightarrow> Inl e | Inr t \<Rightarrow> Inr (s @ '','' @ t))))"

text \<open>
  \<open>error_message\<close> is the expression
  \<open>error instanceof Error ? error.message : String(error)\<close> of every \<open>catch\<close> block.
  It throws when \<open>String(error)\<close> does.
\<close>

fun error_message :: "js_thrown \<Rightarrow> js_thrown + string" where
  "error_message (JsError m) = Inr m"
| "error_message (JsValue v) = js_String v"

text \<open>
  \<open>Date.now()\<close> is a whole number of milliseconds (at most 8.64e15), printed in plain
  decimal.
\<close>

definition digit_char :: "nat \<Rightarrow> char" where
  "digit_char d = ''0123456789'' ! d"

fun show_nat :: "nat \<Rightarrow> string" where
  "show_nat n = (if n < 10 then [digit_char n] else show_nat (n div 10) @ [digit_char (n mod 10)])"

declare show_nat.simps [simp del]

section \<open>types/index.ts\<close>

datatype WorkflowStatus = Running | Success | Error | Cancelled

record WorkflowNode =
  id_n :: string
  type_n :: string
  name_n :: string
  position :: "int \<times> int"
  parameters :: WorkflowData
  credentials :: "WorkflowData option"

record WorkflowConnection =
  node :: string
  type_c :: string
  index_c :: int

record WorkflowExecution =
  id_e :: string
  status :: WorkflowStatus
  startTime :: nat
  endTime :: "nat option"
  data :: WorkflowData
  error :: "string option"

record NodeExecuteResult =
  success :: bool
  data_r :: "WorkflowData option"
  error_r :: "string option"

text \<open>
  \<open>connections\<close> is a \<open>Record<string, WorkflowConnection[]>\<close>: the list of the
  object's own properties in insertion order. \<open>connections[k]\<close> is \<open>map_of\<close>,
  \<open>Object.values\<close> is \<open>map snd\<close>. The keys of an object are distinct.
\<close>

record WorkflowDefinition =
  id_w :: string
  name_w :: string
  nodes :: "WorkflowNode list"
  connections :: "(string \<times> WorkflowConnection list) list"
  active :: bool
  settings :: WorkflowData

section \<open>nodes/BaseNode.ts\<close>

text \<open>
  A node does I/O (HTTP, a subprocess, the Drive and Chat APIs). The outside world is a
  state \<open>'w\<close> that \<open>execute\<close> reads and returns updated. \<open>execute\<close> either
  returns a \<open>NodeExecuteResult\<close> or throws; a call of \<open>execute\<close> whose promise never
  settles is outside the model.
\<close>

record 'w BaseNode =
  node_b :: WorkflowNode
  credentials_b :: WorkflowData
  execute :: "'w \<Rightarrow> WorkflowData \<Rightarrow> 'w \<times> (js_thrown + NodeExecuteResult)"

type_synonym 'w NodeConstructor =
  "WorkflowNode \<Rightarrow> WorkflowData \<Rightarrow> js_thrown + 'w BaseNode"

text \<open>
  \<open>this.node.parameters[name] ?? defaultValue\<close> and \<open>this.credentials[name]\<close>. The
  nodes call both with literal names only (\<open>operation\<close>, \<open>command\<close>, \<open>jiraApi\<close>
  and so on), none of which is a property that \<open>Object.prototype\<close> defines.
\<close>

definition getParameter :: "WorkflowNode \<Rightarrow> string \<Rightarrow> jsval \<Rightarrow> jsval" where
  "getParameter n name defaultValue =
     (case parameters n name of
        None \<Rightarrow> defaultValue
      | Some v \<Rightarrow> if v = JUndefined \<or> v = JNull then defaultValue else v)"

definition getCredential :: "WorkflowData \<Rightarrow> string \<Rightarrow> jsval" where
  "getCredential creds name = (case creds name of None \<Rightarrow> JUndefined | Some v \<Rightarrow> v)"

definition createSuccessResult :: "WorkflowData \<Rightarrow> NodeExecuteResult" where
  "createSuccessResult d = \<lparr>success = True, data_r = Some d, error_r = None\<rparr>"

definition createErrorResult :: "string \<Rightarrow> NodeExecuteResult" where
  "createErrorResult e = \<lparr>success = False, data_r = None, error_r = Some e\<rparr>"

definition quoted :: "string \<Rightarrow> string" where
  "quoted s = [CHR 0x27] @ s @ [CHR 0x27]"

fun validateRequiredCredentials :: "WorkflowData \<Rightarrow> string list \<Rightarrow> js_thrown + unit" where
  "validateRequiredCredentials creds [] = Inr ()"
| "validateRequiredCredentials creds (cred # requiredCreds) =
     (if \<not> truthy (getCredential creds cred)
      then Inl (JsError (''Required credential '' @ quoted cred @ '' is missing''))
      else validateRequiredCredentials creds requiredCreds)"

text \<open>
  A method of a node class, with \<open>this.node\<close> and \<open>this.credentials\<close> as its first
  two arguments. The \<open>catch\<close> block of every \<open>execute\<close> turns what was thrown into
  an error result; when the thrown value cannot be converted to a string, the
  \<open>TypeError\<close> of the conversion leaves \<open>execute\<close>.
\<close>

type_synonym 'w node_method =
  "WorkflowNode \<Rightarrow> WorkflowData \<Rightarrow> 'w \<Rightarrow> WorkflowData \<Rightarrow> 'w \<times> (js_thrown + NodeExecuteResult)"

definition catch_to_error_result ::
  "'w \<times> (js_thrown + NodeExecuteResult) \<Rightarrow> 'w \<times> (js_thrown + NodeExecuteResult)" where
  "catch_to_error_result out =
     (case out of
        (w', Inl e) \<Rightarrow>
          (case error_message e of
             Inl t \<Rightarrow> (w', Inl t)
           | Inr errorMessage \<Rightarrow> (w', Inr (createErrorResult errorMessage)))
      | (w', Inr r) \<Rightarrow> (w', Inr r))"

text \<open>\<open>throw new Error(`Unknown operation: ${operation}`)\<close>\<close>

definition unknown_operation :: "jsval \<Rightarrow> js_thrown" where
  "unknown_operation operation =
     (case js_String operation of
        Inl t \<Rightarrow> t
      | Inr s \<Rightarrow> JsError (''Unknown operation: '' @ s))"

text \<open>An object literal that ends with \<open>...inputData\<close>: the spread is written last.\<close>

definition spread_last :: "WorkflowData \<Rightarrow> WorkflowData \<Rightarrow> WorkflowData" where
  "spread_last own inputData = own ++ inputData"

section \<open>nodes/jira/JiraNode.ts\<close>

text \<open>The names under \<open>credentials\<close> in \<open>getDefinition()\<close>.\<close>

definition JiraNode_credentials :: "string list" where
  "JiraNode_credentials = [''jiraApi'']"

text \<open>
  \<open>getTicket\<close> reads its parameters, refuses a missing ticket key, asks Jira and builds
  the \<open>ticket\<close> object from the answer; then it returns
  \<open>{ticket: ..., ...inputData}\<close>. Everything between the check of the key and the
  result object (the key taken out of a URL, the request, the status checks, the fields
  read off the response, the \<open>url\<close> template) is the parameter \<open>fetchTicket\<close>: it gets
  the three parameters, the \<open>jiraApi\<close> credential and the outside world, and yields the
  \<open>ticket\<close> object or what was thrown. It does not get \<open>inputData\<close>, which the source
  reads nowhere before the spread.
\<close>

type_synonym 'w fetchTicket =
  "jsval \<Rightarrow> jsval \<Rightarrow> jsval \<Rightarrow> jsval \<Rightarrow> 'w \<Rightarrow> 'w \<times> (js_thrown + jsval)"

definition JiraNode_ticket_output :: "jsval \<Rightarrow> WorkflowData" where
  "JiraNode_ticket_output ticket = [''ticket'' \<mapsto> ticket]"

definition JiraNode_getTicket :: "'w fetchTicket \<Rightarrow> 'w node_method" where
  "JiraNode_getTicket fetchTicket n creds w inputData =
     (let ticketKey = getParameter n ''ticketKey'' JUndefined;
          includeDescription = getParameter n ''includeDescription'' (JBool True);
          maxDescriptionLength = getParameter n ''maxDescriptionLength'' (JNum ''200'')
      in if \<not> truthy ticketKey then (w, Inl (JsError ''Ticket key is required''))
         else (case fetchTicket ticketKey includeDescription maxDescriptionLength
                      (getCredential creds ''jiraApi'') w of
                 (w', Inl e) \<Rightarrow> (w', Inl e)
               | (w', Inr ticket) \<Rightarrow>
                   (w', Inr (createSuccessResult
                               (spread_last (JiraNode_ticket_output ticket) inputData)))))"

text \<open>
  \<open>searchTickets\<close> likewise: \<open>searchIssues\<close> is the request and the mapping of the
  issues found; it gets the query, \<open>maxResults\<close>, the credential and the outside world
  and yields \<open>tickets\<close> and \<open>searchData.total\<close>.
\<close>

type_synonym 'w searchIssues =
  "jsval \<Rightarrow> jsval \<Rightarrow> jsval \<Rightarrow> 'w \<Rightarrow> 'w \<times> (js_thrown + jsval \<times> jsval)"

definition JiraNode_search_output :: "jsval \<Rightarrow> jsval \<Rightarrow> jsval \<Rightarrow> WorkflowData" where
  "JiraNode_search_output tickets totalCount searchQuery =
     [''tickets'' \<mapsto> tickets, ''total'' \<mapsto> totalCount, ''query'' \<mapsto> searchQuery]"

definition JiraNode_searchTickets :: "'w searchIssues \<Rightarrow> 'w node_method" where
  "JiraNode_searchTickets searchIssues n creds w inputData =
     (let searchQuery = getParameter n ''searchQuery'' JUndefined;
          maxResults = getParameter n ''maxResults'' (JNum ''10'')
      in if \<not> truthy searchQuery then (w, Inl (JsError ''Search query is required''))
         else (case searchIssues searchQuery maxResults (getCredential creds ''jiraApi'') w of
                 (w', Inl e) \<Rightarrow> (w', Inl e)
               | (w', Inr (tickets, totalCount)) \<Rightarrow>
                   (w', Inr (createSuccessResult
                               (spread_last (JiraNode_search_output tickets totalCount searchQuery)
                                  inputData)))))"

definition JiraNode_execute :: "'w fetchTicket \<Rightarrow> 'w searchIssues \<Rightarrow> 'w node_method" where
  "JiraNode_execute fetchTicket searchIssues n creds w inputData =
     catch_to_error_result
       (case validateRequiredCredentials creds [''jiraApi''] of
          Inl e \<Rightarrow> (w, Inl e)
        | Inr _ \<Rightarrow>
            (let operation = getParameter n ''operation'' (JStr ''getTicket'')
             in if operation = JStr ''getTicket''
                then JiraNode_getTicket fetchTicket n creds w inputData
                else if operation = JStr ''searchTickets''
                then JiraNode_searchTickets searchIssues n creds w inputData
                else (w, Inl (unknown_operation operation))))"

definition JiraNode :: "'w fetchTicket \<Rightarrow> 'w searchIssues \<Rightarrow> 'w NodeConstructor" where
  "JiraNode fetchTicket searchIssues n creds =
     Inr \<lparr>node_b = n, credentials_b = creds,
          execute = JiraNode_execute fetchTicket searchIssues n creds\<rparr>"

section \<open>nodes/android/AndroidNode.ts\<close>

definition AndroidNode_credentials :: "string list" where
  "AndroidNode_credentials = []"

definition AndroidNode_output :: "jsval \<Rightarrow> jsval \<Rightarrow> jsval \<Rightarrow> jsval \<Rightarrow> WorkflowData" where
  "AndroidNode_output command projectPath stdout stderr =
     [''command'' \<mapsto> command, ''projectPath'' \<mapsto> projectPath, ''stdout'' \<mapsto> stdout,
      ''stderr'' \<mapsto> stderr, ''success'' \<mapsto> JBool True]"

text \<open>
  \<open>cwd\<close> is \<open>process.cwd()\<close>; \<open>js_times\<close> is the operator \<open>*\<close>, which converts its
  operands to numbers and throws when it cannot; \<open>execAsync\<close> is the promisified
  \<open>child_process.exec\<close>, which resolves with \<open>stdout\<close> and \<open>stderr\<close> or rejects.
\<close>

definition AndroidNode_execute ::
  "jsval \<Rightarrow> (jsval \<Rightarrow> jsval \<Rightarrow> js_thrown + jsval)
     \<Rightarrow> ('w \<Rightarrow> jsval \<Rightarrow> jsval \<Rightarrow> jsval \<Rightarrow> 'w \<times> (js_thrown + jsval \<times> jsval))
     \<Rightarrow> 'w node_method" where
  "AndroidNode_execute cwd js_times execAsync n creds w inputData =
     catch_to_error_result
       (let command = getParameter n ''command'' JUndefined;
            projectPath = (let p = getParameter n ''projectPath'' JUndefined
                           in if truthy p then p else cwd)
        in case js_times (getParameter n ''timeout'' (JNum ''300'')) (JNum ''1000'') of
             Inl e \<Rightarrow> (w, Inl e)
           | Inr timeout \<Rightarrow>
               if \<not> truthy command then (w, Inl (JsError ''Command is required''))
               else (case execAsync w command projectPath timeout of
                       (w', Inl e) \<Rightarrow> (w', Inl e)
                     | (w', Inr (stdout, stderr)) \<Rightarrow>
                         (w', Inr (createSuccessResult
                                     (spread_last
                                        (AndroidNode_output command projectPath stdout stderr)
                                        inputData)))))"

definition AndroidNode ::
  "jsval \<Rightarrow> (jsval \<Rightarrow> jsval \<Rightarrow> js_thrown + jsval)
     \<Rightarrow> ('w \<Rightarrow> jsval \<Rightarrow> jsval \<Rightarrow> jsval \<Rightarrow> 'w \<times> (js_thrown + jsval \<times> jsval))
     \<Rightarrow> 'w NodeConstructor" where
  "AndroidNode cwd js_times execAsync n creds =
     Inr \<lparr>node_b = n, credentials_b = creds,
          execute = AndroidNode_execute cwd js_times execAsync n creds\<rparr>"

section \<open>nodes/google/GoogleChatNode.ts\<close>

definition GoogleChatNode_credentials :: "string list" where
  "GoogleChatNode_credentials = [''googleChatServiceAccount'']"

text \<open>The \<open>ChatResponse\<close> of \<open>GoogleChatAgent.sendMessageToSpace\<close>.\<close>

record ChatResponse =
  success_c :: bool
  messageId :: "string option"
  spaceId :: "string option"
  error_c :: "string option"

definition optional_string :: "string option \<Rightarrow> jsval" where
  "optional_string s = (case s of None \<Rightarrow> JUndefined | Some t \<Rightarrow> JStr t)"

text \<open>The agent, as far as the node uses it: its method \<open>sendMessageToSpace\<close>.\<close>

type_synonym 'w ChatAgent =
  "jsval \<Rightarrow> jsval \<Rightarrow> jsval \<Rightarrow> 'w \<Rightarrow> 'w \<times> (js_thrown + ChatResponse)"

definition GoogleChatNode_output :: "ChatResponse \<Rightarrow> jsval \<Rightarrow> jsval \<Rightarrow> WorkflowData" where
  "GoogleChatNode_output result messageText threadId =
     [''operation'' \<mapsto> JStr ''sendMessage'', ''success'' \<mapsto> JBool True,
      ''messageId'' \<mapsto> optional_string (messageId result),
      ''spaceId'' \<mapsto> optional_string (spaceId result),
      ''messageText'' \<mapsto> messageText, ''threadId'' \<mapsto> threadId]"

text \<open>
  The two \<open>console.log\<close> calls of \<open>sendMessage\<close> print nothing that the model keeps,
  but their template literals convert \<open>spaceId\<close> and \<open>messageText\<close> to strings, which
  can throw.
\<close>

definition GoogleChatNode_sendMessage :: "'w ChatAgent \<Rightarrow> 'w node_method" where
  "GoogleChatNode_sendMessage agent n creds w inputData =
     (let spaceIdP = getParameter n ''spaceId'' JUndefined;
          messageText = getParameter n ''messageText'' JUndefined;
          threadId = getParameter n ''threadId'' JUndefined
      in if \<not> truthy messageText
         then (w, Inl (JsError ''Message text is required for sendMessage operation''))
         else (case js_String spaceIdP of
                 Inl t \<Rightarrow> (w, Inl t)
               | Inr _ \<Rightarrow>
                   (case js_String messageText of
                      Inl t \<Rightarrow> (w, Inl t)
                    | Inr _ \<Rightarrow>
                        (case agent spaceIdP messageText threadId w of
                           (w', Inl e) \<Rightarrow> (w', Inl e)
                         | (w', Inr result) \<Rightarrow>
                             if success_c result
                             then (w', Inr (createSuccessResult
                                     (spread_last
                                        (GoogleChatNode_output result messageText threadId)
                                        inputData)))
                             else (w', Inr (createErrorResult
                                     (case error_c result of
                                        None \<Rightarrow> ''Failed to send message''
                                      | Some e \<Rightarrow>
                                          if e = [] then ''Failed to send message'' else e)))))))"

text \<open>
  \<open>loadAgent\<close> is the dynamic \<open>import\<close> of the agent module followed by
  \<open>new GoogleChatAgent()\<close>.
\<close>

definition GoogleChatNode_execute ::
  "('w \<Rightarrow> 'w \<times> (js_thrown + 'w ChatAgent)) \<Rightarrow> 'w node_method" where
  "GoogleChatNode_execute loadAgent n creds w inputData =
     catch_to_error_result
       (case validateRequiredCredentials creds [''googleChatServiceAccount''] of
          Inl e \<Rightarrow> (w, Inl e)
        | Inr _ \<Rightarrow>
            (let operation = getParameter n ''operation'' (JStr ''sendMessage'');
                 spaceIdP = getParameter n ''spaceId'' JUndefined
             in if \<not> truthy spaceIdP then (w, Inl (JsError ''Space ID is required''))
                else (case loadAgent w of
                        (w1, Inl e) \<Rightarrow> (w1, Inl e)
                      | (w1, Inr agent) \<Rightarrow>
                          if operation = JStr ''sendMessage''
                          then GoogleChatNode_sendMessage agent n creds w1 inputData
                          else (w1, Inl (unknown_operation operation)))))"

definition GoogleChatNode ::
  "('w \<Rightarrow> 'w \<times> (js_thrown + 'w ChatAgent)) \<Rightarrow> 'w NodeConstructor" where
  "GoogleChatNode loadAgent n creds =
     Inr \<lparr>node_b = n, credentials_b = creds, execute = GoogleChatNode_execute loadAgent n creds\<rparr>"

section \<open>nodes/google/GoogleDriveNode.ts\<close>

definition GoogleDriveNode_credentials :: "string list" where
  "GoogleDriveNode_credentials = [''googleDriveServiceAccount'']"

text \<open>
  The agent, as far as the node uses it: its method \<open>uploadFile\<close>, which resolves with
  a message or rejects.
\<close>

type_synonym 'w DriveAgent =
  "jsval \<Rightarrow> jsval \<Rightarrow> jsval \<Rightarrow> 'w \<Rightarrow> 'w \<times> (js_thrown + string)"

definition GoogleDriveNode_output :: "string \<Rightarrow> WorkflowData" where
  "GoogleDriveNode_output message = [''operation'' \<mapsto> JStr ''uploadFile'', ''message'' \<mapsto> JStr message]"

text \<open>
  \<open>uploadFileWithAgent\<close>. Its first \<open>console.log\<close> prints
  \<open>fileName || path.basename(filePath)\<close>, its second \<open>filePath\<close>; \<open>basename\<close> is
  \<open>path.basename\<close> of Node's library, which throws on an argument that is not a string.
  \<open>execute\<close> reaches no other method that builds a result: the private methods
  \<open>resumableUpload\<close> and \<open>simpleUpload\<close> of the class are called nowhere in it (their
  result objects end with \<open>...inputData\<close> as well).
\<close>

definition GoogleDriveNode_uploadFileWithAgent ::
  "(jsval \<Rightarrow> js_thrown + string) \<Rightarrow> 'w DriveAgent \<Rightarrow> 'w node_method" where
  "GoogleDriveNode_uploadFileWithAgent basename agent n creds w inputData =
     (let filePath = getParameter n ''filePath'' JUndefined;
          fileName = getParameter n ''fileName'' JUndefined;
          folderId = getParameter n ''folderId'' JUndefined
      in if \<not> truthy filePath
         then (w, Inl (JsError ''File path is required for upload operation''))
         else (case (if truthy fileName then js_String fileName else basename filePath) of
                 Inl t \<Rightarrow> (w, Inl t)
               | Inr _ \<Rightarrow>
                   (case js_String filePath of
                      Inl t \<Rightarrow> (w, Inl t)
                    | Inr _ \<Rightarrow>
                        (case agent filePath folderId fileName w of
                           (w', Inl e) \<Rightarrow> (w', Inl e)
                         | (w', Inr result) \<Rightarrow>
                             (w', Inr (createSuccessResult
                                         (spread_last (GoogleDriveNode_output result)
                                            inputData)))))))"

text \<open>
  \<open>loadAgent\<close> is the dynamic \<open>import\<close> of the agent module followed by
  \<open>new GoogleDriveAgent()\<close>.
\<close>

definition GoogleDriveNode_execute ::
  "('w \<Rightarrow> 'w \<times> (js_thrown + 'w DriveAgent)) \<Rightarrow> (jsval \<Rightarrow> js_thrown + string) \<Rightarrow> 'w node_method" where
  "GoogleDriveNode_execute loadAgent basename n creds w inputData =
     catch_to_error_result
       (case validateRequiredCredentials creds [''googleDriveServiceAccount''] of
          Inl e \<Rightarrow> (w, Inl e)
        | Inr _ \<Rightarrow>
            (let operation = getParameter n ''operation'' (JStr ''uploadFile'')
             in case loadAgent w of
                  (w1, Inl e) \<Rightarrow> (w1, Inl e)
                | (w1, Inr agent) \<Rightarrow>
                    if operation = JStr ''uploadFile''
                    then GoogleDriveNode_uploadFileWithAgent basename agent n creds w1 inputData
                    else (w1, Inl (unknown_operation operation))))"

definition GoogleDriveNode ::
  "('w \<Rightarrow> 'w \<times> (js_thrown + 'w DriveAgent)) \<Rightarrow> (jsval \<Rightarrow> js_thrown + string) \<Rightarrow> 'w NodeConstructor" where
  "GoogleDriveNode loadAgent basename n creds =
     Inr \<lparr>node_b = n, credentials_b = creds,
          execute = GoogleDriveNode_execute loadAgent basename n creds\<rparr>"

section \<open>engine/WorkflowEngine.ts\<close>

type_synonym 'w nodeRegistry = "string \<rightharpoonup> 'w NodeConstructor"

definition registerNode :: "'w nodeRegistry \<Rightarrow> string \<Rightarrow> 'w NodeConstructor \<Rightarrow> 'w nodeRegistry" where
  "registerNode reg ty nodeClass = reg(ty \<mapsto> nodeClass)"

text \<open>The registry after the constructor of \<open>WorkflowEngine\<close>: only \<open>jira\<close>.\<close>

definition WorkflowEngine_nodeRegistry :: "'w fetchTicket \<Rightarrow> 'w searchIssues \<Rightarrow> 'w nodeRegistry" where
  "WorkflowEngine_nodeRegistry fetchTicket searchIssues =
     registerNode Map.empty ''jira'' (JiraNode fetchTicket searchIssues)"

text \<open>
  The run is observed through a trace: one event for each constructor call, with the
  arguments it received, and one for each call of \<open>execute\<close>, with its input and what
  it returned or threw.
\<close>

datatype event =
    Instantiated WorkflowNode WorkflowData
  | Executed WorkflowNode WorkflowData "js_thrown + NodeExecuteResult"

definition connectedNodes :: "WorkflowDefinition \<Rightarrow> string set" where
  "connectedNodes workflow =
     fold (\<lambda>conns acc. fold (\<lambda>connection acc'. insert (node connection) acc') conns acc)
          (map snd (connections workflow)) {}"

definition findStartNode :: "WorkflowDefinition \<Rightarrow> WorkflowNode option" where
  "findStartNode workflow = find (\<lambda>n. id_n n \<notin> connectedNodes workflow) (nodes workflow)"

text \<open>
  The properties that every ordinary object inherits from \<open>Object.prototype\<close>. Reading
  \<open>workflow.connections[id]\<close> for such an \<open>id\<close> that is not an own key yields the
  inherited function or object, which is truthy and cannot be iterated: the \<open>for\<close>
  loop of \<open>getNextNodes\<close> throws a \<open>TypeError\<close>. The connections object is taken to
  have the prototype \<open>Object.prototype\<close>.
\<close>

definition Object_prototype_properties :: "string list" where
  "Object_prototype_properties =
     [''constructor'', ''__defineGetter__'', ''__defineSetter__'', ''hasOwnProperty'',
      ''__lookupGetter__'', ''__lookupSetter__'', ''isPrototypeOf'', ''propertyIsEnumerable'',
      ''toString'', ''valueOf'', ''__proto__'', ''toLocaleString'']"

definition getNextNodes :: "WorkflowDefinition \<Rightarrow> string \<Rightarrow> js_thrown + WorkflowNode list" where
  "getNextNodes workflow currentNodeId =
     (case map_of (connections workflow) currentNodeId of
        Some conns \<Rightarrow>
          Inr (fold (\<lambda>connection nextNodes.
                       case find (\<lambda>n. id_n n = node connection) (nodes workflow) of
                         Some nextNode \<Rightarrow> nextNodes @ [nextNode]
                       | None \<Rightarrow> nextNodes)
                    conns [])
      | None \<Rightarrow>
          if currentNodeId \<in> set Object_prototype_properties
          then Inl (JsError ''connections is not iterable'')
          else Inr [])"

definition extractCredentials :: "WorkflowNode \<Rightarrow> WorkflowDefinition \<Rightarrow> WorkflowData" where
  "extractCredentials n workflow = (case credentials n of None \<Rightarrow> Map.empty | Some c \<Rightarrow> c)"

definition createNodeInstance ::
  "'w nodeRegistry \<Rightarrow> WorkflowNode \<Rightarrow> WorkflowDefinition \<Rightarrow> event list \<times> (js_thrown + 'w BaseNode)" where
  "createNodeInstance reg n workflow =
     (case reg (type_n n) of
        None \<Rightarrow> ([], Inl (JsError (''Unknown node type: '' @ type_n n)))
      | Some NodeClass \<Rightarrow>
          (let creds = extractCredentials n workflow
           in ([Instantiated n creds], NodeClass n creds)))"

text \<open>\<open>result.data || {}\<close> and \<open>`${result.error}`\<close>\<close>

definition data_or_empty :: "NodeExecuteResult \<Rightarrow> WorkflowData" where
  "data_or_empty r = (case data_r r of None \<Rightarrow> Map.empty | Some d \<Rightarrow> d)"

definition error_text :: "NodeExecuteResult \<Rightarrow> string" where
  "error_text r = (case error_r r of None \<Rightarrow> ''undefined'' | Some e \<Rightarrow> e)"

text \<open>
  The chain walker calls itself on the first element of \<open>nextNodes\<close> and has no
  bound; a run that never returns is the value \<open>None\<close>. The second test
  \<open>if (!nextNode)\<close> of the source cannot fire on a non-empty array of nodes.
\<close>

partial_function (option) executeNodeChain ::
  "'w nodeRegistry \<Rightarrow> WorkflowDefinition \<Rightarrow> WorkflowNode \<Rightarrow> WorkflowData \<Rightarrow> 'w \<Rightarrow> event list
     \<Rightarrow> ('w \<times> event list \<times> (js_thrown + WorkflowData)) option" where
  "executeNodeChain reg workflow currentNode inputData w tr =
     (case createNodeInstance reg currentNode workflow of
        (evs, Inl e) \<Rightarrow> Some (w, tr @ evs, Inl e)
      | (evs, Inr nodeInstance) \<Rightarrow>
          (case execute nodeInstance w inputData of
             (w', Inl e) \<Rightarrow>
               Some (w', tr @ evs @ [Executed currentNode inputData (Inl e)], Inl e)
           | (w', Inr result) \<Rightarrow>
               (let tr' = tr @ evs @ [Executed currentNode inputData (Inr result)]
                in if \<not> success result
                   then Some (w', tr', Inl (JsError (''Node execution failed: '' @ error_text result)))
                   else (case getNextNodes workflow (id_n currentNode) of
                           Inl e \<Rightarrow> Some (w', tr', Inl e)
                         | Inr [] \<Rightarrow> Some (w', tr', Inr (data_or_empty result))
                         | Inr (nextNode # _) \<Rightarrow>
                             executeNodeChain reg workflow nextNode (data_or_empty result) w' tr'))))"

text \<open>
  The three clock reads of \<open>executeWorkflow\<close>: \<open>Date.now()\<close> for the id,
  \<open>new Date()\<close> for the start and for the end.
\<close>

record Clock =
  now_id :: nat
  now_start :: nat
  now_end :: nat

text \<open>The body of the \<open>try\<close> block, up to the value of \<open>result\<close>.\<close>

definition tryBody ::
  "'w nodeRegistry \<Rightarrow> WorkflowDefinition \<Rightarrow> WorkflowData \<Rightarrow> 'w
     \<Rightarrow> ('w \<times> event list \<times> (js_thrown + WorkflowData)) option" where
  "tryBody reg workflow inputData w =
     (case findStartNode workflow of
        None \<Rightarrow> Some (w, [], Inl (JsError ''No start node found in workflow''))
      | Some startNode \<Rightarrow> executeNodeChain reg workflow startNode inputData w [])"

text \<open>
  The record that \<open>executeWorkflow\<close> creates before the \<open>try\<close> block. A call that
  omits \<open>inputData\<close> is the call with the empty bag. Data bags are values here: a node
  that would assign into the object it was given is outside the model (none of the nodes of
  the repository does; they build new objects).
\<close>

definition initial_execution :: "Clock \<Rightarrow> WorkflowData \<Rightarrow> WorkflowExecution" where
  "initial_execution clk inputData =
     \<lparr>id_e = ''exec_'' @ show_nat (now_id clk), status = Running,
      startTime = now_start clk, endTime = None, data = inputData, error = None\<rparr>"

text \<open>
  An async function either resolves with a value or rejects with what was thrown;
  \<open>try_catch\<close> is the \<open>try { ... } catch (error) { ... }\<close> statement around a body
  whose outcome is already known. The handler of \<open>executeWorkflow\<close> evaluates
  \<open>error instanceof Error ? error.message : String(error)\<close>; when that throws, the
  call rejects.
\<close>

definition try_catch :: "js_thrown + 'a \<Rightarrow> (js_thrown \<Rightarrow> js_thrown + 'a) \<Rightarrow> js_thrown + 'a" where
  "try_catch body handler = (case body of Inl err \<Rightarrow> handler err | Inr v \<Rightarrow> Inr v)"

definition executeWorkflow ::
  "'w nodeRegistry \<Rightarrow> Clock \<Rightarrow> WorkflowDefinition \<Rightarrow> WorkflowData \<Rightarrow> 'w
     \<Rightarrow> ('w \<times> event list \<times> (js_thrown + WorkflowExecution)) option" where
  "executeWorkflow reg clk workflow inputData w =
     (let execution = initial_execution clk inputData
      in case tryBody reg workflow inputData w of
           None \<Rightarrow> None
         | Some (w', tr, body) \<Rightarrow>
             Some (w', tr,
               try_catch
                 (case body of
                    Inl err \<Rightarrow> Inl err
                  | Inr result \<Rightarrow>
                      Inr (execution\<lparr>status := Success, endTime := Some (now_end clk),
                                         data := result\<rparr>))
                 (\<lambda>err. case error_message err of
                          Inl t \<Rightarrow> Inl t
                        | Inr errorMessage \<Rightarrow>
                            Inr (execution\<lparr>status := Error, endTime := Some (now_end clk),
                                               error := Some errorMessage\<rparr>))))"

section \<open>Vocabulary of the properties\<close>

text \<open>
  The notions in which the properties below are stated: connection targets, the nodes a
  trace instantiates and executes, the chain the walker follows, the connection graph.
\<close>

text \<open>The id \<open>i\<close> appears as a connection target somewhere in the connections map.\<close>

definition is_connection_target :: "WorkflowDefinition \<Rightarrow> string \<Rightarrow> bool" where
  "is_connection_target workflow i =
     (\<exists>kv \<in> set (connections workflow). \<exists>c \<in> set (snd kv). node c = i)"

fun instantiated_nodes :: "event list \<Rightarrow> WorkflowNode list" where
  "instantiated_nodes [] = []"
| "instantiated_nodes (Instantiated n c # evs) = n # instantiated_nodes evs"
| "instantiated_nodes (Executed n d out # evs) = instantiated_nodes evs"

fun executed_nodes :: "event list \<Rightarrow> WorkflowNode list" where
  "executed_nodes [] = []"
| "executed_nodes (Instantiated n c # evs) = executed_nodes evs"
| "executed_nodes (Executed n d out # evs) = n # executed_nodes evs"

text \<open>\<open>nextNodes[0]\<close>: the node the walker goes to after \<open>n\<close>, if any.\<close>

definition follow :: "WorkflowDefinition \<Rightarrow> WorkflowNode \<Rightarrow> WorkflowNode option" where
  "follow workflow n =
     (case getNextNodes workflow (id_n n) of
        Inl e \<Rightarrow> None
      | Inr ns \<Rightarrow> (case ns of [] \<Rightarrow> None | m # _ \<Rightarrow> Some m))"





text \<open>
  \<open>d\<close> is the shallow merge of \<open>own\<close> and \<open>inputData\<close> in which the value of
  \<open>inputData\<close> is kept for every key both have.
\<close>

definition input_wins :: "WorkflowData \<Rightarrow> WorkflowData \<Rightarrow> WorkflowData \<Rightarrow> bool" where
  "input_wins own inputData d =
     (\<forall>k. d k = (case inputData k of Some v \<Rightarrow> Some v | None \<Rightarrow> own k))"

definition result_success :: "'w \<times> (js_thrown + NodeExecuteResult) \<Rightarrow> bool" where
  "result_success out = (case out of (w', Inr r) \<Rightarrow> success r | (w', Inl e) \<Rightarrow> False)"

definition result_field :: "'w \<times> (js_thrown + NodeExecuteResult) \<Rightarrow> string \<Rightarrow> jsval option" where
  "result_field out k =
     (case out of
        (w', Inr r) \<Rightarrow> (case data_r r of None \<Rightarrow> None | Some d \<Rightarrow> d k)
      | (w', Inl e) \<Rightarrow> None)"

section \<open>One step of the chain walker\<close>

text \<open>
  One pass through the body of \<open>executeNodeChain\<close>: it either ends the run or hands the
  next node and its input to the recursive call. \<open>chain_run\<close> relates a start state to
  the events and the outcome of a run that returns. \<open>arrival\<close> gives the state in which
  the \<open>k\<close>-th recursive call is entered (node, input, outside world, events so far), whether
  or not the run returns later.
\<close>

datatype 'w step =
    Finished 'w "event list" "js_thrown + WorkflowData"
  | Continue 'w "event list" WorkflowNode WorkflowData

definition chain_step ::
  "'w nodeRegistry \<Rightarrow> WorkflowDefinition \<Rightarrow> WorkflowNode \<Rightarrow> WorkflowData \<Rightarrow> 'w \<Rightarrow> 'w step" where
  "chain_step reg workflow currentNode inputData w =
     (case createNodeInstance reg currentNode workflow of
        (evs, Inl e) \<Rightarrow> Finished w evs (Inl e)
      | (evs, Inr nodeInstance) \<Rightarrow>
          (case execute nodeInstance w inputData of
             (w', Inl e) \<Rightarrow> Finished w' (evs @ [Executed currentNode inputData (Inl e)]) (Inl e)
           | (w', Inr result) \<Rightarrow>
               if \<not> success result
               then Finished w' (evs @ [Executed currentNode inputData (Inr result)])
                      (Inl (JsError (''Node execution failed: '' @ error_text result)))
               else (case getNextNodes workflow (id_n currentNode) of
                       Inl e \<Rightarrow>
                         Finished w' (evs @ [Executed currentNode inputData (Inr result)]) (Inl e)
                     | Inr [] \<Rightarrow>
                         Finished w' (evs @ [Executed currentNode inputData (Inr result)])
                           (Inr (data_or_empty result))
                     | Inr (nextNode # _) \<Rightarrow>
                         Continue w' (evs @ [Executed currentNode inputData (Inr result)])
                           nextNode (data_or_empty result))))"

definition step_events :: "'w step \<Rightarrow> event list" where
  "step_events st = (case st of Finished w evs res \<Rightarrow> evs | Continue w evs nxt d \<Rightarrow> evs)"

inductive chain_run ::
  "'w nodeRegistry \<Rightarrow> WorkflowDefinition \<Rightarrow> WorkflowNode \<Rightarrow> WorkflowData \<Rightarrow> 'w
     \<Rightarrow> event list \<Rightarrow> 'w \<Rightarrow> js_thrown + WorkflowData \<Rightarrow> bool"
  for reg workflow where
    run_end: "chain_step reg workflow cur inp w = Finished w' evs res
       \<Longrightarrow> chain_run reg workflow cur inp w evs w' res"
  | run_next: "chain_step reg workflow cur inp w = Continue w1 evs1 nxt d
       \<Longrightarrow> chain_run reg workflow nxt d w1 evs2 w' res
       \<Longrightarrow> chain_run reg workflow cur inp w (evs1 @ evs2) w' res"

fun arrival ::
  "'w nodeRegistry \<Rightarrow> WorkflowDefinition \<Rightarrow> WorkflowNode \<Rightarrow> WorkflowData \<Rightarrow> 'w \<Rightarrow> nat
     \<Rightarrow> (WorkflowNode \<times> WorkflowData \<times> 'w \<times> event list) option" where
  "arrival reg workflow start inputData w 0 = Some (start, inputData, w, [])"
| "arrival reg workflow start inputData w (Suc k) =
     (case arrival reg workflow start inputData w k of
        None \<Rightarrow> None
      | Some (cur, inp, w1, tr) \<Rightarrow>
          (case chain_step reg workflow cur inp w1 of
             Finished w2 evs res \<Rightarrow> None
           | Continue w2 evs nxt d \<Rightarrow> Some (nxt, d, w2, tr @ evs)))"

section \<open>Example definitions\<close>

text \<open>
  Concrete nodes, registries and workflows on which the properties are evaluated. An
  \<open>echo\<close> node returns its input unchanged, a \<open>boom\<close> node reports the failure
  \<open>boom\<close>, a \<open>crash\<close> node throws an \<open>Error\<close>, an \<open>opaque\<close> node throws an object
  without prototype.
\<close>

definition example_node :: "string \<Rightarrow> string \<Rightarrow> WorkflowNode" where
  "example_node i ty =
     \<lparr>id_n = i, type_n = ty, name_n = i, position = (0, 0), parameters = Map.empty,
      credentials = None\<rparr>"

definition example_connection :: "string \<Rightarrow> WorkflowConnection" where
  "example_connection t = \<lparr>node = t, type_c = ''main'', index_c = 0\<rparr>"

definition example_workflow ::
  "WorkflowNode list \<Rightarrow> (string \<times> WorkflowConnection list) list \<Rightarrow> WorkflowDefinition" where
  "example_workflow ns cs =
     \<lparr>id_w = ''example'', name_w = ''example'', nodes = ns, connections = cs, active = True,
      settings = Map.empty\<rparr>"

text \<open>
  The node types of the scenarios; they are not node types of the repository. \<open>echo\<close>
  returns \<open>{success: true, data: inputData}\<close>, \<open>boom\<close> returns
  \<open>{success: false, error: "boom"}\<close>, the \<open>execute\<close> of \<open>crash\<close> throws
  \<open>new Error("crash")\<close>, the \<open>execute\<close> of \<open>opaque\<close> throws \<open>Object.create(null)\<close>.
\<close>

definition EchoNode :: "'w NodeConstructor" where
  "EchoNode n creds =
     Inr \<lparr>node_b = n, credentials_b = creds,
          execute = (\<lambda>w inputData. (w, Inr (createSuccessResult inputData)))\<rparr>"

definition BoomNode :: "'w NodeConstructor" where
  "BoomNode n creds =
     Inr \<lparr>node_b = n, credentials_b = creds,
          execute = (\<lambda>w inputData. (w, Inr (createErrorResult ''boom'')))\<rparr>"

definition CrashNode :: "'w NodeConstructor" where
  "CrashNode n creds =
     Inr \<lparr>node_b = n, credentials_b = creds,
          execute = (\<lambda>w inputData. (w, Inl (JsError ''crash'')))\<rparr>"

definition OpaqueNode :: "'w NodeConstructor" where
  "OpaqueNode n creds =
     Inr \<lparr>node_b = n, credentials_b = creds,
          execute = (\<lambda>w inputData. (w, Inl (JsValue (JNullProto []))))\<rparr>"

definition example_registry :: "'w nodeRegistry" where
  "example_registry =
     registerNode
       (registerNode (registerNode (registerNode Map.empty ''echo'' EchoNode) ''boom'' BoomNode)
          ''crash'' CrashNode)
       ''opaque'' OpaqueNode"

definition example_clock :: Clock where
  "example_clock = \<lparr>now_id = 7, now_start = 7, now_end = 9\<rparr>"

definition workflow_echo :: WorkflowDefinition where
  "workflow_echo = example_workflow [example_node ''n1'' ''echo''] []"

definition workflow_boom :: WorkflowDefinition where
  "workflow_boom =
     example_workflow [example_node ''n1'' ''boom'', example_node ''n2'' ''echo'']
       [(''n1'', [example_connection ''n2''])]"

definition workflow_fan :: WorkflowDefinition where
  "workflow_fan =
     example_workflow [example_node ''a'' ''echo'', example_node ''b'' ''echo'', example_node ''c'' ''echo'']
       [(''a'', [example_connection ''ghost'', example_connection ''b'', example_connection ''c'']),
        (''b'', [example_connection ''c''])]"

definition example_times :: "jsval \<Rightarrow> jsval \<Rightarrow> js_thrown + jsval" where
  "example_times a b =
     (if a = JNum ''1500'' \<and> b = JNum ''1000'' then Inr (JNum ''1500000'') else Inr (JNum ''NaN''))"

definition example_execAsync :: "'w \<Rightarrow> jsval \<Rightarrow> jsval \<Rightarrow> jsval \<Rightarrow> 'w \<times> (js_thrown + jsval \<times> jsval)" where
  "example_execAsync w command cwd timeout = (w, Inr (JStr ''built'', JStr []))"

definition android_node :: WorkflowNode where
  "android_node =
     \<lparr>id_n = ''android-node-1'', type_n = ''android'', name_n = ''Execute Android Command'',
      position = (100, 100),
      parameters = [''command'' \<mapsto> JStr ''yarn build'', ''timeout'' \<mapsto> JNum ''1500''],
      credentials = None\<rparr>"

definition android_run :: "unit \<times> (js_thrown + NodeExecuteResult)" where
  "android_run =
     AndroidNode_execute (JStr ''/app'') example_times example_execAsync android_node Map.empty ()
       [''command'' \<mapsto> JStr ''ls'']"

definition workflow_echo_end :: WorkflowDefinition where
  "workflow_echo_end = example_workflow [example_node ''n1'' ''echo''] [(''n1'', [])]"

definition workflow_selfloop :: WorkflowDefinition where
  "workflow_selfloop =
     example_workflow [example_node ''n1'' ''echo''] [(''n1'', [example_connection ''n1''])]"

definition workflow_empty :: WorkflowDefinition where
  "workflow_empty = example_workflow [] []"

definition workflow_unknown :: WorkflowDefinition where
  "workflow_unknown = example_workflow [example_node ''n1'' ''nope''] []"





definition workflow_boom_loop :: WorkflowDefinition where
  "workflow_boom_loop =
     example_workflow [example_node ''s'' ''echo'', example_node ''a'' ''boom'']
       [(''s'', [example_connection ''a'']), (''a'', [example_connection ''a''])]"


definition example_fetchTicket :: "unit fetchTicket" where
  "example_fetchTicket ticketKey includeDescription maxDescriptionLength credential w =
     (w, Inr (JObj [(''key'', ticketKey), (''summary'', JStr ''Fix the build'')]))"

definition example_searchIssues :: "unit searchIssues" where
  "example_searchIssues searchQuery maxResults credential w = (w, Inr (JArr [], JNum ''0''))"

definition jira_node :: WorkflowNode where
  "jira_node =
     \<lparr>id_n = ''jira-node-1'', type_n = ''jira'', name_n = ''Fetch Jira Ticket'',
      position = (100, 100),
      parameters = [''operation'' \<mapsto> JStr ''getTicket'', ''ticketKey'' \<mapsto> JStr ''PROJ-1''],
      credentials = Some [''jiraApi'' \<mapsto> JObj [(''domain'', JStr ''https://example.atlassian.net'')]]\<rparr>"

section \<open>Properties\<close>

subsection \<open>Start node resolution\<close>

lemma fold_insert_node: "fold (\<lambda>connection acc'. insert (node connection) acc') cs acc = acc \<union> node ` set cs"
  by (induction cs arbitrary: acc) auto

lemma fold_connections:
  "fold (\<lambda>conns acc. fold (\<lambda>connection acc'. insert (node connection) acc') conns acc) css acc
     = acc \<union> (\<Union>cs \<in> set css. node ` set cs)"
  by (induction css arbitrary: acc) (auto simp: fold_insert_node)

lemma connectedNodes_iff: "i \<in> connectedNodes workflow \<longleftrightarrow> is_connection_target workflow i"
  by (auto simp: connectedNodes_def fold_connections is_connection_target_def)

lemma find_Some_split:
  "find P xs = Some x \<longleftrightarrow> (\<exists>pre post. xs = pre @ x # post \<and> P x \<and> (\<forall>m \<in> set pre. \<not> P m))"
proof (induction xs)
  case Nil
  then show ?case by simp
next
  case (Cons a xs)
  show ?case
  proof (cases "P a")
    case True
    have "(\<exists>pre post. a # xs = pre @ x # post \<and> P x \<and> (\<forall>m \<in> set pre. \<not> P m)) \<longleftrightarrow> a = x"
    proof
      assume "\<exists>pre post. a # xs = pre @ x # post \<and> P x \<and> (\<forall>m \<in> set pre. \<not> P m)"
      then obtain pre post where h: "a # xs = pre @ x # post" "\<forall>m \<in> set pre. \<not> P m" by blast
      show "a = x"
      proof (cases pre)
        case Nil
        with h show ?thesis by simp
      next
        case (Cons b pre')
        with h True show ?thesis by auto
      qed
    next
      assume "a = x"
      with True have "a # xs = [] @ x # xs \<and> P x \<and> (\<forall>m \<in> set []. \<not> P m)" by simp
      then show "\<exists>pre post. a # xs = pre @ x # post \<and> P x \<and> (\<forall>m \<in> set pre. \<not> P m)" by blast
    qed
    with True show ?thesis by auto
  next
    case False
    have "(\<exists>pre post. a # xs = pre @ x # post \<and> P x \<and> (\<forall>m \<in> set pre. \<not> P m))
          \<longleftrightarrow> (\<exists>pre post. xs = pre @ x # post \<and> P x \<and> (\<forall>m \<in> set pre. \<not> P m))"
    proof
      assume "\<exists>pre post. a # xs = pre @ x # post \<and> P x \<and> (\<forall>m \<in> set pre. \<not> P m)"
      then obtain pre post where h: "a # xs = pre @ x # post" "P x" "\<forall>m \<in> set pre. \<not> P m" by blast
      show "\<exists>pre post. xs = pre @ x # post \<and> P x \<and> (\<forall>m \<in> set pre. \<not> P m)"
      proof (cases pre)
        case Nil
        with h False show ?thesis by simp
      next
        case (Cons b pre')
        with h have "xs = pre' @ x # post \<and> P x \<and> (\<forall>m \<in> set pre'. \<not> P m)" by simp
        then show ?thesis by blast
      qed
    next
      assume "\<exists>pre post. xs = pre @ x # post \<and> P x \<and> (\<forall>m \<in> set pre. \<not> P m)"
      then obtain pre post where h: "xs = pre @ x # post" "P x" "\<forall>m \<in> set pre. \<not> P m" by blast
      with False have "a # xs = (a # pre) @ x # post \<and> P x \<and> (\<forall>m \<in> set (a # pre). \<not> P m)" by simp
      then show "\<exists>pre post. a # xs = pre @ x # post \<and> P x \<and> (\<forall>m \<in> set pre. \<not> P m)" by blast
    qed
    with False Cons.IH show ?thesis by simp
  qed
qed

lemma findStartNode_Some_iff:
  "findStartNode workflow = Some s \<longleftrightarrow>
     (\<exists>pre post. nodes workflow = pre @ s # post \<and> \<not> is_connection_target workflow (id_n s)
        \<and> (\<forall>m \<in> set pre. is_connection_target workflow (id_n m)))"
  by (simp add: findStartNode_def find_Some_split connectedNodes_iff)

lemma findStartNode_None_iff:
  "findStartNode workflow = None \<longleftrightarrow> (\<forall>m \<in> set (nodes workflow). is_connection_target workflow (id_n m))"
  by (auto simp: findStartNode_def find_None_iff connectedNodes_iff)

subsection \<open>The chain walker, step by step\<close>

lemma executeNodeChain_step:
  "executeNodeChain reg workflow cur inp w tr =
     (case chain_step reg workflow cur inp w of
        Finished w' evs res \<Rightarrow> Some (w', tr @ evs, res)
      | Continue w' evs nxt d \<Rightarrow> executeNodeChain reg workflow nxt d w' (tr @ evs))"
  by (subst executeNodeChain.simps)
     (simp add: chain_step_def Let_def split: prod.split sum.split list.split)

lemma chain_run_imp_Some:
  "chain_run reg workflow cur inp w evs w' res
     \<Longrightarrow> executeNodeChain reg workflow cur inp w tr = Some (w', tr @ evs, res)"
proof (induction arbitrary: tr rule: chain_run.induct)
  case (run_end cur inp w w' evs res)
  then show ?case by (subst executeNodeChain_step) simp
next
  case (run_next cur inp w w1 evs1 nxt d evs2 w' res)
  from run_next.IH[of "tr @ evs1"] run_next.hyps(1)
  show ?case by (subst executeNodeChain_step) simp
qed

lemma Some_imp_chain_run:
  assumes a: "executeNodeChain reg workflow cur inp w tr = Some y"
  shows "\<exists>evs w' res. y = (w', tr @ evs, res) \<and> chain_run reg workflow cur inp w evs w' res"
proof (rule executeNodeChain.raw_induct
    [where P = "\<lambda>reg workflow cur inp w tr y.
                  \<exists>evs w' res. y = (w', tr @ evs, res) \<and> chain_run reg workflow cur inp w evs w' res",
     OF _ a])
  fix f :: "'a nodeRegistry \<Rightarrow> WorkflowDefinition \<Rightarrow> WorkflowNode \<Rightarrow> WorkflowData \<Rightarrow> 'a \<Rightarrow> event list
     \<Rightarrow> ('a \<times> event list \<times> (js_thrown + WorkflowData)) option"
  fix reg workflow cur inp w tr y
  assume IH: "\<And>reg workflow cur inp w tr y. f reg workflow cur inp w tr = Some y \<Longrightarrow>
     \<exists>evs w' res. y = (w', tr @ evs, res) \<and> chain_run reg workflow cur inp w evs w' res"
  assume body: "(case createNodeInstance reg cur workflow of
      (evs, Inl e) \<Rightarrow> Some (w, tr @ evs, Inl e)
      | (evs, Inr nodeInstance) \<Rightarrow>
          case execute nodeInstance w inp of
          (w', Inl e) \<Rightarrow> Some (w', tr @ evs @ [Executed cur inp (Inl e)], Inl e)
          | (w', Inr result) \<Rightarrow>
              let tr' = tr @ evs @ [Executed cur inp (Inr result)]
              in if \<not> success result
                 then Some (w', tr', Inl (JsError (''Node execution failed: '' @ error_text result)))
                 else case getNextNodes workflow (id_n cur) of
                      Inl e \<Rightarrow> Some (w', tr', Inl e)
                      | Inr [] \<Rightarrow> Some (w', tr', Inr (data_or_empty result))
                      | Inr (nextNode # x) \<Rightarrow> f reg workflow nextNode (data_or_empty result) w' tr') = Some y"
  show "\<exists>evs w' res. y = (w', tr @ evs, res) \<and> chain_run reg workflow cur inp w evs w' res"
  proof (cases "chain_step reg workflow cur inp w")
    case (Finished w' evs res)
    with body have "y = (w', tr @ evs, res)"
      by (auto simp: chain_step_def Let_def split: prod.splits sum.splits list.splits if_splits)
    with Finished show ?thesis by (blast intro: chain_run.run_end)
  next
    case (Continue w1 evs1 nxt d)
    with body have "f reg workflow nxt d w1 (tr @ evs1) = Some y"
      by (auto simp: chain_step_def Let_def split: prod.splits sum.splits list.splits if_splits)
    from IH[OF this] obtain evs2 w' res where
      "y = (w', (tr @ evs1) @ evs2, res)" "chain_run reg workflow nxt d w1 evs2 w' res"
      by blast
    with Continue have "y = (w', tr @ (evs1 @ evs2), res) \<and> chain_run reg workflow cur inp w (evs1 @ evs2) w' res"
      by (simp add: chain_run.run_next)
    then show ?thesis by blast
  qed
qed

lemma executeNodeChain_Some_iff:
  "executeNodeChain reg workflow cur inp w tr = Some (w', tr', res) \<longleftrightarrow>
     (\<exists>evs. tr' = tr @ evs \<and> chain_run reg workflow cur inp w evs w' res)"
  using Some_imp_chain_run[of reg workflow cur inp w tr "(w', tr', res)"]
        chain_run_imp_Some[of reg workflow cur inp w _ w' res tr]
  by auto

lemma arrival_run:
  "arrival reg workflow start inputData w k = Some (cur, inp, w1, tr) \<Longrightarrow>
   executeNodeChain reg workflow start inputData w [] = executeNodeChain reg workflow cur inp w1 tr"
proof (induction k arbitrary: cur inp w1 tr)
  case 0
  then show ?case by simp
next
  case (Suc k)
  from Suc.prems obtain c0 i0 w0 t0 w2 evs where
    prev: "arrival reg workflow start inputData w k = Some (c0, i0, w0, t0)"
    and st: "chain_step reg workflow c0 i0 w0 = Continue w2 evs cur inp"
    and eq: "w1 = w2" "tr = t0 @ evs"
    by (auto split: option.splits step.splits)
  from Suc.IH[OF prev]
  have "executeNodeChain reg workflow start inputData w [] = executeNodeChain reg workflow c0 i0 w0 t0" .
  also have "\<dots> = executeNodeChain reg workflow cur inp w2 (t0 @ evs)"
    using st by (subst executeNodeChain_step) simp
  finally show ?case using eq by simp
qed

subsection \<open>Outcomes of one step\<close>

lemma createNodeInstance_cases:
  obtains
    (unknown) "reg (type_n cur) = None"
      "createNodeInstance reg cur workflow = ([], Inl (JsError (''Unknown node type: '' @ type_n cur)))"
  | (known) NodeClass where "reg (type_n cur) = Some NodeClass"
      "createNodeInstance reg cur workflow =
         ([Instantiated cur (extractCredentials cur workflow)],
          NodeClass cur (extractCredentials cur workflow))"
  by (cases "reg (type_n cur)") (auto simp: createNodeInstance_def Let_def)

lemma chain_step_cases:
  obtains
    (unknown) "reg (type_n cur) = None"
      "chain_step reg workflow cur inp w =
         Finished w [] (Inl (JsError (''Unknown node type: '' @ type_n cur)))"
  | (ctor_throws) NodeClass e where "reg (type_n cur) = Some NodeClass"
      "NodeClass cur (extractCredentials cur workflow) = Inl e"
      "chain_step reg workflow cur inp w =
         Finished w [Instantiated cur (extractCredentials cur workflow)] (Inl e)"
  | (exec_throws) NodeClass inst w' e where "reg (type_n cur) = Some NodeClass"
      "NodeClass cur (extractCredentials cur workflow) = Inr inst"
      "execute inst w inp = (w', Inl e)"
      "chain_step reg workflow cur inp w =
         Finished w' [Instantiated cur (extractCredentials cur workflow),
                      Executed cur inp (Inl e)] (Inl e)"
  | (failure) NodeClass inst w' r where "reg (type_n cur) = Some NodeClass"
      "NodeClass cur (extractCredentials cur workflow) = Inr inst"
      "execute inst w inp = (w', Inr r)" "\<not> success r"
      "chain_step reg workflow cur inp w =
         Finished w' [Instantiated cur (extractCredentials cur workflow),
                      Executed cur inp (Inr r)]
           (Inl (JsError (''Node execution failed: '' @ error_text r)))"
  | (next_throws) NodeClass inst w' r e where "reg (type_n cur) = Some NodeClass"
      "NodeClass cur (extractCredentials cur workflow) = Inr inst"
      "execute inst w inp = (w', Inr r)" "success r"
      "getNextNodes workflow (id_n cur) = Inl e"
      "chain_step reg workflow cur inp w =
         Finished w' [Instantiated cur (extractCredentials cur workflow),
                      Executed cur inp (Inr r)] (Inl e)"
  | (last) NodeClass inst w' r where "reg (type_n cur) = Some NodeClass"
      "NodeClass cur (extractCredentials cur workflow) = Inr inst"
      "execute inst w inp = (w', Inr r)" "success r"
      "getNextNodes workflow (id_n cur) = Inr []"
      "chain_step reg workflow cur inp w =
         Finished w' [Instantiated cur (extractCredentials cur workflow),
                      Executed cur inp (Inr r)] (Inr (data_or_empty r))"
  | (more) NodeClass inst w' r nxt rest where "reg (type_n cur) = Some NodeClass"
      "NodeClass cur (extractCredentials cur workflow) = Inr inst"
      "execute inst w inp = (w', Inr r)" "success r"
      "getNextNodes workflow (id_n cur) = Inr (nxt # rest)"
      "chain_step reg workflow cur inp w =
         Continue w' [Instantiated cur (extractCredentials cur workflow),
                      Executed cur inp (Inr r)] nxt (data_or_empty r)"
proof (cases rule: createNodeInstance_cases[of reg cur workflow])
  case unknown
  then show ?thesis using that(1) by (simp add: chain_step_def)
next
  case (known NodeClass)
  show ?thesis
  proof (cases "NodeClass cur (extractCredentials cur workflow)")
    case (Inl e)
    with known show ?thesis using that(2) by (simp add: chain_step_def)
  next
    case (Inr inst)
    obtain w' out where ex: "execute inst w inp = (w', out)" by (cases "execute inst w inp")
    show ?thesis
    proof (cases out)
      case (Inl e)
      with known Inr ex show ?thesis using that(3) by (simp add: chain_step_def)
    next
      case r: (Inr r)
      show ?thesis
      proof (cases "success r")
        case False
        with known Inr ex r show ?thesis using that(4) by (simp add: chain_step_def)
      next
        case True
        show ?thesis
        proof (cases "getNextNodes workflow (id_n cur)")
          case (Inl e)
          with known \<open>NodeClass cur (extractCredentials cur workflow) = Inr inst\<close> ex r True
          show ?thesis using that(5) by (simp add: chain_step_def)
        next
          case nx: (Inr ns)
          show ?thesis
          proof (cases ns)
            case Nil
            with nx known \<open>NodeClass cur (extractCredentials cur workflow) = Inr inst\<close> ex r True
            show ?thesis using that(6) by (simp add: chain_step_def)
          next
            case (Cons nxt rest)
            with nx known \<open>NodeClass cur (extractCredentials cur workflow) = Inr inst\<close> ex r True
            show ?thesis using that(7) by (simp add: chain_step_def)
          qed
        qed
      qed
    qed
  qed
qed

lemma chain_run_failure_last:
  "chain_run reg workflow cur inp w evs w' res \<Longrightarrow>
   i < length evs \<Longrightarrow> evs ! i = Executed n d (Inr r) \<Longrightarrow> \<not> success r \<Longrightarrow>
   Suc i = length evs \<and> res = Inl (JsError (''Node execution failed: '' @ error_text r))"
proof (induction arbitrary: i rule: chain_run.induct)
  case (run_end cur inp w w' evs res)
  from run_end.prems show ?case
    by (cases rule: chain_step_cases[of reg cur workflow inp w])
       (use run_end.hyps in \<open>auto simp: nth_Cons' split: if_splits\<close>)
next
  case (run_next cur inp w w1 evs1 nxt d' evs2 w' res)
  from run_next.hyps(1) obtain r1 where
    evs1: "evs1 = [Instantiated cur (extractCredentials cur workflow), Executed cur inp (Inr r1)]"
    and r1: "success r1"
    by (cases rule: chain_step_cases[of reg cur workflow inp w]) auto
  from run_next.prems evs1 r1 have i2: "2 \<le> i"
    by (cases i; cases "i - 1") (auto simp: nth_append nth_Cons')
  with run_next.prems evs1 have "i - 2 < length evs2" "evs2 ! (i - 2) = Executed n d (Inr r)"
    by (auto simp: nth_append numeral_2_eq_2)
  from run_next.IH[OF this run_next.prems(3)] i2 evs1 show ?case by auto
qed

subsection \<open>executeWorkflow\<close>

lemma executeWorkflow_unfold:
  "executeWorkflow reg clk workflow inputData w =
     (case tryBody reg workflow inputData w of
        None \<Rightarrow> None
      | Some (w', tr, Inl err) \<Rightarrow>
          (case error_message err of
             Inl t \<Rightarrow> Some (w', tr, Inl t)
           | Inr m \<Rightarrow>
               Some (w', tr, Inr ((initial_execution clk inputData)
                   \<lparr>status := Error, endTime := Some (now_end clk), error := Some m\<rparr>)))
      | Some (w', tr, Inr result) \<Rightarrow>
          Some (w', tr, Inr ((initial_execution clk inputData)
                   \<lparr>status := Success, endTime := Some (now_end clk), data := result\<rparr>)))"
  by (simp add: executeWorkflow_def Let_def try_catch_def split: option.split prod.split sum.split)

lemma tryBody_Some_cases:
  assumes "tryBody reg workflow inputData w = Some (w', tr, res)"
  obtains
    (no_start) "findStartNode workflow = None" "w' = w" "tr = []"
      "res = Inl (JsError ''No start node found in workflow'')"
  | (chain) startNode where "findStartNode workflow = Some startNode"
      "chain_run reg workflow startNode inputData w tr w' res"
  using assms
  by (cases "findStartNode workflow") (auto simp: tryBody_def executeNodeChain_Some_iff)

lemma arrival_finished:
  assumes "arrival reg workflow start inputData w k = Some (n, d, w1, tr)"
    and "chain_step reg workflow n d w1 = Finished w2 evs res"
  shows "executeNodeChain reg workflow start inputData w [] = Some (w2, tr @ evs, res)"
    and "arrival reg workflow start inputData w (Suc k) = None"
proof -
  have "executeNodeChain reg workflow n d w1 tr = Some (w2, tr @ evs, res)"
    using assms(2) by (subst executeNodeChain_step) simp
  with arrival_run[OF assms(1)]
  show "executeNodeChain reg workflow start inputData w [] = Some (w2, tr @ evs, res)" by simp
  from assms show "arrival reg workflow start inputData w (Suc k) = None" by simp
qed

lemma chain_step_failure:
  assumes "reg (type_n n) = Some NodeClass"
    and "NodeClass n (extractCredentials n workflow) = Inr inst"
    and "execute inst w1 d = (w2, Inr r)" and "\<not> success r"
  shows "chain_step reg workflow n d w1 =
           Finished w2 [Instantiated n (extractCredentials n workflow), Executed n d (Inr r)]
             (Inl (JsError (''Node execution failed: '' @ error_text r)))"
  using assms by (simp add: chain_step_def createNodeInstance_def Let_def)

lemma executeWorkflow_failed_run:
  assumes "findStartNode workflow = Some start"
    and "executeNodeChain reg workflow start inputData w [] = Some (w', tr, Inl e)"
    and "error_message e = Inr m"
  shows "executeWorkflow reg clk workflow inputData w =
           Some (w', tr, Inr ((initial_execution clk inputData)
                   \<lparr>status := Error, endTime := Some (now_end clk), error := Some m\<rparr>))"
  using assms by (simp add: executeWorkflow_unfold tryBody_def)

text \<open>
  Claim C2. Let the walker, started at the start node, enter its \<open>k\<close>-th call at a node
  whose \<open>execute\<close> returns a result with \<open>success = false\<close>. Then \<open>executeWorkflow\<close>
  returns, and what it returns is a record with status \<open>error\<close> whose error string is
  \<open>Node execution failed: \<close> followed by the error the node reported (the text
  \<open>undefined\<close> when it reported none); the trace of the run ends with that call of
  \<open>execute\<close>, and there is no further call of the walker. Conversely, in every run that
  returns, a call of \<open>execute\<close> with \<open>success = false\<close> is the last event and the record
  is that error record.
\<close>

theorem failed_node_aborts_run:
  "(findStartNode workflow = Some start
      \<and> arrival reg workflow start inputData w k = Some (n, d, w1, tr)
      \<and> reg (type_n n) = Some NodeClass
      \<and> NodeClass n (extractCredentials n workflow) = Inr inst
      \<and> execute inst w1 d = (w2, Inr r) \<and> \<not> success r
    \<longrightarrow> (\<exists>ex. executeWorkflow reg clk workflow inputData w
                 = Some (w2, tr @ [Instantiated n (extractCredentials n workflow),
                                   Executed n d (Inr r)], Inr ex)
              \<and> status ex = Error
              \<and> error ex = Some (''Node execution failed: ''
                                  @ (case error_r r of None \<Rightarrow> ''undefined'' | Some e \<Rightarrow> e)))
        \<and> arrival reg workflow start inputData w (Suc k) = None)
   \<and> (\<forall>w' trf out i m di ri.
         executeWorkflow reg clk workflow inputData w = Some (w', trf, out)
         \<and> i < length trf \<and> trf ! i = Executed m di (Inr ri) \<and> \<not> success ri
       \<longrightarrow> Suc i = length trf
           \<and> (\<exists>ex. out = Inr ex \<and> status ex = Error
                 \<and> error ex = Some (''Node execution failed: ''
                                     @ (case error_r ri of None \<Rightarrow> ''undefined'' | Some e \<Rightarrow> e))))"
proof (intro conjI allI impI)
  assume a: "findStartNode workflow = Some start
      \<and> arrival reg workflow start inputData w k = Some (n, d, w1, tr)
      \<and> reg (type_n n) = Some NodeClass
      \<and> NodeClass n (extractCredentials n workflow) = Inr inst
      \<and> execute inst w1 d = (w2, Inr r) \<and> \<not> success r"
  then have st: "chain_step reg workflow n d w1 =
           Finished w2 [Instantiated n (extractCredentials n workflow), Executed n d (Inr r)]
             (Inl (JsError (''Node execution failed: '' @ error_text r)))"
    by (simp add: chain_step_failure)
  from a have arr: "arrival reg workflow start inputData w k = Some (n, d, w1, tr)" by simp
  from arrival_finished(2)[OF arr st]
  show "arrival reg workflow start inputData w (Suc k) = None" .
  from a have fs: "findStartNode workflow = Some start" by simp
  have "executeWorkflow reg clk workflow inputData w =
           Some (w2, tr @ [Instantiated n (extractCredentials n workflow), Executed n d (Inr r)],
             Inr ((initial_execution clk inputData)
                   \<lparr>status := Error, endTime := Some (now_end clk),
                    error := Some (''Node execution failed: '' @ error_text r)\<rparr>))"
    by (rule executeWorkflow_failed_run[OF fs arrival_finished(1)[OF arr st]]) simp
  then show "\<exists>ex. executeWorkflow reg clk workflow inputData w
                 = Some (w2, tr @ [Instantiated n (extractCredentials n workflow),
                                   Executed n d (Inr r)], Inr ex)
              \<and> status ex = Error
              \<and> error ex = Some (''Node execution failed: ''
                                  @ (case error_r r of None \<Rightarrow> ''undefined'' | Some e \<Rightarrow> e))"
    by (simp add: error_text_def)
next
  fix w' trf out i m di ri
  assume a: "executeWorkflow reg clk workflow inputData w = Some (w', trf, out)
         \<and> i < length trf \<and> trf ! i = Executed m di (Inr ri) \<and> \<not> success ri"
  then obtain res where tb: "tryBody reg workflow inputData w = Some (w', trf, res)"
    by (auto simp: executeWorkflow_unfold split: option.splits prod.splits sum.splits)
  from tb have u: "Suc i = length trf
      \<and> res = Inl (JsError (''Node execution failed: '' @ error_text ri))"
  proof (cases rule: tryBody_Some_cases)
    case no_start
    with a show ?thesis by simp
  next
    case (chain startNode)
    from chain_run_failure_last[OF chain(2), of i m di ri] a show ?thesis by simp
  qed
  then show "Suc i = length trf" by simp
  from a tb u show "\<exists>ex. out = Inr ex \<and> status ex = Error
                 \<and> error ex = Some (''Node execution failed: ''
                                     @ (case error_r ri of None \<Rightarrow> ''undefined'' | Some e \<Rightarrow> e))"
    by (auto simp: executeWorkflow_unfold error_text_def)
qed

text \<open>
  Claim C9. Every record that \<open>executeWorkflow\<close> returns has status \<open>success\<close> or
  \<open>error\<close>, never \<open>running\<close> or \<open>cancelled\<close>, and a defined \<open>endTime\<close>.
\<close>

theorem returned_status_success_or_error:
  assumes "executeWorkflow reg clk workflow inputData w = Some (w', tr, Inr ex)"
  shows "(status ex = Success \<or> status ex = Error)
           \<and> status ex \<noteq> Running \<and> status ex \<noteq> Cancelled \<and> endTime ex \<noteq> None"
  using assms
  by (auto simp: executeWorkflow_unfold split: option.splits prod.splits sum.splits)

text \<open>
  Claim C10. In every returned record with status \<open>error\<close>, the data field is the
  \<open>inputData\<close> that was passed in.
\<close>

theorem error_record_keeps_inputData:
  assumes "executeWorkflow reg clk workflow inputData w = Some (w', tr, Inr ex)"
    and "status ex = Error"
  shows "data ex = inputData"
  using assms
  by (auto simp: executeWorkflow_unfold initial_execution_def split: option.splits prod.splits sum.splits)

text \<open>
  Claim C1. \<open>findStartNode\<close> returns the first node, in declaration order, whose id is
  not a connection target anywhere in the connections map. When every node id is a
  connection target (a single node with a self-loop, no nodes at all), \<open>executeWorkflow\<close>
  returns a record with status \<open>error\<close> and the message that no start node was found; no
  node is instantiated or executed.
\<close>

theorem findStartNode_first_unreferenced:
  "(findStartNode workflow = Some s \<longleftrightarrow>
     (\<exists>pre post. nodes workflow = pre @ s # post \<and> \<not> is_connection_target workflow (id_n s)
        \<and> (\<forall>m \<in> set pre. is_connection_target workflow (id_n m))))
   \<and> ((\<forall>m \<in> set (nodes workflow). is_connection_target workflow (id_n m)) \<longrightarrow>
        findStartNode workflow = None \<and>
        (\<exists>ex. executeWorkflow reg clk workflow inputData w = Some (w, [], Inr ex)
              \<and> status ex = Error \<and> error ex = Some ''No start node found in workflow''))"
proof (intro conjI impI)
  show "findStartNode workflow = Some s \<longleftrightarrow>
     (\<exists>pre post. nodes workflow = pre @ s # post \<and> \<not> is_connection_target workflow (id_n s)
        \<and> (\<forall>m \<in> set pre. is_connection_target workflow (id_n m)))"
    by (rule findStartNode_Some_iff)
next
  assume all: "\<forall>m \<in> set (nodes workflow). is_connection_target workflow (id_n m)"
  then show none: "findStartNode workflow = None" by (simp add: findStartNode_None_iff)
  then have "tryBody reg workflow inputData w
      = Some (w, [], Inl (JsError ''No start node found in workflow''))"
    by (simp add: tryBody_def)
  then show "\<exists>ex. executeWorkflow reg clk workflow inputData w = Some (w, [], Inr ex)
              \<and> status ex = Error \<and> error ex = Some ''No start node found in workflow''"
    by (simp add: executeWorkflow_unfold)
qed

lemma chain_run_credentials:
  "chain_run reg workflow cur inp w evs w' res \<Longrightarrow> Instantiated n c \<in> set evs \<Longrightarrow>
   c = (case credentials n of None \<Rightarrow> Map.empty | Some b \<Rightarrow> b)"
proof (induction rule: chain_run.induct)
  case (run_end cur inp w w' evs res)
  from run_end.prems show ?case
    by (cases rule: chain_step_cases[of reg cur workflow inp w])
       (use run_end.hyps in \<open>auto simp: extractCredentials_def\<close>)
next
  case (run_next cur inp w w1 evs1 nxt d' evs2 w' res)
  from run_next.hyps(1) run_next.prems run_next.IH show ?case
    by (cases rule: chain_step_cases[of reg cur workflow inp w])
       (auto simp: extractCredentials_def)
qed

subsection \<open>Successor selection\<close>

lemma instantiated_nodes_append:
  "instantiated_nodes (xs @ ys) = instantiated_nodes xs @ instantiated_nodes ys"
  by (induction xs rule: instantiated_nodes.induct) auto

lemma executed_nodes_append:
  "executed_nodes (xs @ ys) = executed_nodes xs @ executed_nodes ys"
  by (induction xs rule: executed_nodes.induct) auto

lemma fold_resolve:
  "fold (\<lambda>connection nextNodes.
           case find (\<lambda>n. id_n n = node connection) ns of
             Some nextNode \<Rightarrow> nextNodes @ [nextNode]
           | None \<Rightarrow> nextNodes) cs acc
   = acc @ List.map_filter (\<lambda>c. find (\<lambda>n. id_n n = node c) ns) cs"
  by (induction cs arbitrary: acc) (auto simp: List.map_filter_simps split: option.split)

lemma getNextNodes_map_filter:
  "map_of (connections workflow) k = Some cs \<Longrightarrow>
   getNextNodes workflow k =
     Inr (List.map_filter (\<lambda>c. find (\<lambda>n. id_n n = node c) (nodes workflow)) cs)"
  by (simp add: getNextNodes_def fold_resolve)

lemma getNextNodes_no_entry:
  "map_of (connections workflow) k = None \<Longrightarrow>
   getNextNodes workflow k = Inl (JsError ''connections is not iterable'')
   \<or> getNextNodes workflow k = Inr []"
  by (simp add: getNextNodes_def)

lemma map_filter_skip:
  "\<forall>p \<in> set pre. f p = None \<Longrightarrow> f c = Some b \<Longrightarrow>
   List.map_filter f (pre @ c # post) = b # List.map_filter f post"
  by (induction pre) (simp_all add: List.map_filter_simps)

lemma map_filter_Cons_split:
  "List.map_filter f cs = b # rest \<Longrightarrow>
   \<exists>pre c post. cs = pre @ c # post \<and> (\<forall>p \<in> set pre. f p = None) \<and> f c = Some b"
proof (induction cs)
  case Nil
  then show ?case by (simp add: List.map_filter_simps)
next
  case (Cons a cs)
  show ?case
  proof (cases "f a")
    case None
    with Cons.prems have "List.map_filter f cs = b # rest" by (simp add: List.map_filter_simps)
    from Cons.IH[OF this] obtain pre c post where
      "cs = pre @ c # post" "\<forall>p \<in> set pre. f p = None" "f c = Some b" by blast
    with None have "a # cs = (a # pre) @ c # post \<and> (\<forall>p \<in> set (a # pre). f p = None) \<and> f c = Some b"
      by simp
    then show ?thesis by blast
  next
    case (Some v)
    with Cons.prems have "v = b" by (simp add: List.map_filter_simps)
    with Some have "a # cs = [] @ a # cs \<and> (\<forall>p \<in> set []. f p = None) \<and> f a = Some b" by simp
    then show ?thesis by blast
  qed
qed

lemma follow_SomeD:
  assumes "follow workflow a = Some b"
  shows "\<exists>pre c post. map_of (connections workflow) (id_n a) = Some (pre @ c # post)
           \<and> (\<forall>p \<in> set pre. \<forall>m \<in> set (nodes workflow). id_n m \<noteq> node p)
           \<and> find (\<lambda>m. id_n m = node c) (nodes workflow) = Some b"
proof -
  from assms obtain rest where g: "getNextNodes workflow (id_n a) = Inr (b # rest)"
    by (auto simp: follow_def split: sum.splits list.splits)
  then obtain cs where cs: "map_of (connections workflow) (id_n a) = Some cs"
    using getNextNodes_no_entry[of workflow "id_n a"]
    by (cases "map_of (connections workflow) (id_n a)") auto
  with g have "List.map_filter (\<lambda>c. find (\<lambda>n. id_n n = node c) (nodes workflow)) cs = b # rest"
    by (simp add: getNextNodes_map_filter)
  from map_filter_Cons_split[OF this] obtain pre c post where
    "cs = pre @ c # post"
    "\<forall>p \<in> set pre. find (\<lambda>n. id_n n = node p) (nodes workflow) = None"
    "find (\<lambda>n. id_n n = node c) (nodes workflow) = Some b" by blast
  with cs show ?thesis by (auto simp: find_None_iff)
qed

lemma follow_first_resolvable:
  assumes "map_of (connections workflow) (id_n a) = Some (pre @ c # post)"
    and "\<forall>p \<in> set pre. \<forall>m \<in> set (nodes workflow). id_n m \<noteq> node p"
    and "find (\<lambda>m. id_n m = node c) (nodes workflow) = Some b"
  shows "\<exists>rest. getNextNodes workflow (id_n a) = Inr (b # rest)"
proof -
  from assms(2) have "\<forall>p \<in> set pre. find (\<lambda>n. id_n n = node p) (nodes workflow) = None"
    by (auto simp: find_None_iff)
  from map_filter_skip[OF this assms(3)] getNextNodes_map_filter[OF assms(1)]
  show ?thesis by simp
qed

lemma successively_nth:
  "successively P xs \<Longrightarrow> Suc i < length xs \<Longrightarrow> P (xs ! i) (xs ! Suc i)"
proof (induction P xs arbitrary: i rule: successively.induct)
  case (3 P x y xs)
  then show ?case by (cases i) auto
qed auto

lemma chain_run_follows:
  "chain_run reg workflow cur inp w evs w' res \<Longrightarrow>
   successively (\<lambda>a b. follow workflow a = Some b) (instantiated_nodes evs)
   \<and> (instantiated_nodes evs = [] \<or> hd (instantiated_nodes evs) = cur)"
proof (induction rule: chain_run.induct)
  case (run_end cur inp w w' evs res)
  then show ?case
    by (cases rule: chain_step_cases[of reg cur workflow inp w]) auto
next
  case (run_next cur inp w w1 evs1 nxt d' evs2 w' res)
  from run_next.hyps(1) obtain r1 rest where
    evs1: "evs1 = [Instantiated cur (extractCredentials cur workflow), Executed cur inp (Inr r1)]"
    and nx: "getNextNodes workflow (id_n cur) = Inr (nxt # rest)"
    by (cases rule: chain_step_cases[of reg cur workflow inp w]) auto
  from nx have "follow workflow cur = Some nxt" by (simp add: follow_def)
  with run_next.IH evs1 show ?case
    by (auto simp: successively_Cons)
qed

lemma chain_run_executed_prefix:
  "chain_run reg workflow cur inp w evs w' res \<Longrightarrow>
   \<exists>rest. instantiated_nodes evs = executed_nodes evs @ rest \<and> length rest \<le> 1"
proof (induction rule: chain_run.induct)
  case (run_end cur inp w w' evs res)
  then show ?case
    by (cases rule: chain_step_cases[of reg cur workflow inp w]) auto
next
  case (run_next cur inp w w1 evs1 nxt d' evs2 w' res)
  from run_next.hyps(1) obtain r1 where
    evs1: "evs1 = [Instantiated cur (extractCredentials cur workflow), Executed cur inp (Inr r1)]"
    by (cases rule: chain_step_cases[of reg cur workflow inp w]) auto
  with run_next.IH show ?case by auto
qed

lemma returned_trace_follows_chain:
  assumes "executeWorkflow reg clk workflow inputData w = Some (w', tr, out)"
  shows "(\<exists>rest. instantiated_nodes tr = executed_nodes tr @ rest \<and> length rest \<le> 1)
       \<and> (\<forall>i. Suc i < length (instantiated_nodes tr) \<longrightarrow>
            (\<exists>pre c post.
               map_of (connections workflow) (id_n (instantiated_nodes tr ! i)) = Some (pre @ c # post)
             \<and> (\<forall>p \<in> set pre. \<forall>m \<in> set (nodes workflow). id_n m \<noteq> node p)
             \<and> find (\<lambda>m. id_n m = node c) (nodes workflow) = Some (instantiated_nodes tr ! Suc i)))"
proof -
  from assms obtain res where tb: "tryBody reg workflow inputData w = Some (w', tr, res)"
    by (auto simp: executeWorkflow_unfold split: option.splits prod.splits sum.splits)
  from tb show ?thesis
  proof (cases rule: tryBody_Some_cases)
    case no_start
    then show ?thesis by simp
  next
    case (chain startNode)
    from chain_run_follows[OF chain(2)]
    have s: "successively (\<lambda>a b. follow workflow a = Some b) (instantiated_nodes tr)" by simp
    have "\<And>i. Suc i < length (instantiated_nodes tr) \<Longrightarrow>
            follow workflow (instantiated_nodes tr ! i) = Some (instantiated_nodes tr ! Suc i)"
      using successively_nth[OF s] by simp
    with chain_run_executed_prefix[OF chain(2)] show ?thesis
      by (blast dest: follow_SomeD)
  qed
qed

lemma chain_step_success:
  assumes "reg (type_n a) = Some NodeClass"
    and "NodeClass a (extractCredentials a workflow) = Inr inst"
    and "execute inst w1 inp = (w2, Inr r)" and "success r"
    and "getNextNodes workflow (id_n a) = Inr (b # rest)"
  shows "chain_step reg workflow a inp w1 =
           Continue w2 [Instantiated a (extractCredentials a workflow), Executed a inp (Inr r)]
             b (data_or_empty r)"
  using assms by (simp add: chain_step_def createNodeInstance_def Let_def)

lemma chain_step_events:
  assumes "reg (type_n b) = Some NodeClass"
    and "NodeClass b (extractCredentials b workflow) = Inr inst"
    and "execute inst w2 d = (w3, out)"
  shows "step_events (chain_step reg workflow b d w2) =
           [Instantiated b (extractCredentials b workflow), Executed b d out]"
  using assms
  by (cases rule: chain_step_cases[of reg b workflow d w2]) (auto simp: step_events_def)

lemma chain_run_begins:
  assumes "chain_run reg workflow cur inp w evs w' res"
  shows "\<exists>rest. evs = step_events (chain_step reg workflow cur inp w) @ rest"
  using assms by (cases rule: chain_run.cases) (auto simp: step_events_def)

lemma arrival_Suc_trace:
  assumes "arrival reg workflow start inputData w k = Some (cur, inp, w1, tr)"
    and "arrival reg workflow start inputData w (Suc k) = Some (nxt, d, w2, tr2)"
  shows "tr2 = tr @ step_events (chain_step reg workflow cur inp w1)"
  using assms by (auto simp: step_events_def split: step.splits)

lemma chain_step_executes:
  assumes "reg (type_n b) = Some NodeClass"
    and "NodeClass b (extractCredentials b workflow) = Inr inst"
    and "execute inst w2 d = (w3, out)"
  shows "(\<exists>nxt d2. chain_step reg workflow b d w2 =
            Continue w3 [Instantiated b (extractCredentials b workflow), Executed b d out] nxt d2)
       \<or> (\<exists>res. chain_step reg workflow b d w2 =
            Finished w3 [Instantiated b (extractCredentials b workflow), Executed b d out] res)"
  using assms
  by (cases rule: chain_step_cases[of reg b workflow d w2]) auto

text \<open>
  Claim C3, as the code has it. Let the walker enter a call at a node \<open>a\<close> whose
  \<open>execute\<close> succeeds, and let \<open>c\<close> be the first declared target of \<open>a\<close> that names a
  node \<open>b\<close> of the definition (the targets declared before it name none). Then the next
  call of the walker is at \<open>b\<close>, with the data of the result of \<open>a\<close> as input, and the
  run from the start is the run continued at \<open>b\<close>. If moreover the type of \<open>b\<close> is
  registered and its constructor returns an instance, the events that follow those of
  \<open>a\<close> are the instantiation of \<open>b\<close> and the call of its \<open>execute\<close>, and nothing in
  between: either the walker goes on to a further call with exactly these events
  recorded, or the run returns with them. No other declared target of \<open>a\<close> is run at
  that step.
\<close>

theorem successor_is_first_resolvable_target:
  assumes arr: "arrival reg workflow start inputData w k = Some (a, inp, w1, tr)"
    and reg: "reg (type_n a) = Some NodeClass"
    and ctor: "NodeClass a (extractCredentials a workflow) = Inr inst"
    and exec: "execute inst w1 inp = (w2, Inr r)" and ok: "success r"
    and conn: "map_of (connections workflow) (id_n a) = Some (pre @ c # post)"
    and dangling: "\<forall>p \<in> set pre. \<forall>m \<in> set (nodes workflow). id_n m \<noteq> node p"
    and res: "find (\<lambda>m. id_n m = node c) (nodes workflow) = Some b"
  shows "arrival reg workflow start inputData w (Suc k)
           = Some (b, data_or_empty r, w2,
                   tr @ [Instantiated a (extractCredentials a workflow), Executed a inp (Inr r)])
       \<and> executeNodeChain reg workflow start inputData w []
           = executeNodeChain reg workflow b (data_or_empty r) w2
               (tr @ [Instantiated a (extractCredentials a workflow), Executed a inp (Inr r)])
       \<and> (\<forall>NodeClassB instB w3 out.
             reg (type_n b) = Some NodeClassB
           \<and> NodeClassB b (extractCredentials b workflow) = Inr instB
           \<and> execute instB w2 (data_or_empty r) = (w3, out)
           \<longrightarrow> (\<forall>w' trf result.
                  executeNodeChain reg workflow start inputData w [] = Some (w', trf, result)
                  \<longrightarrow> (\<exists>rest. trf =
                         tr @ [Instantiated a (extractCredentials a workflow),
                               Executed a inp (Inr r),
                               Instantiated b (extractCredentials b workflow),
                               Executed b (data_or_empty r) out] @ rest))
               \<and> (\<forall>nxt d2 w4 tr2.
                  arrival reg workflow start inputData w (Suc (Suc k)) = Some (nxt, d2, w4, tr2)
                  \<longrightarrow> tr2 =
                         tr @ [Instantiated a (extractCredentials a workflow),
                               Executed a inp (Inr r),
                               Instantiated b (extractCredentials b workflow),
                               Executed b (data_or_empty r) out])
               \<and> ((\<exists>nxt d2.
                     arrival reg workflow start inputData w (Suc (Suc k))
                       = Some (nxt, d2, w3,
                           tr @ [Instantiated a (extractCredentials a workflow),
                                 Executed a inp (Inr r),
                                 Instantiated b (extractCredentials b workflow),
                                 Executed b (data_or_empty r) out]))
                  \<or> (\<exists>result.
                     executeNodeChain reg workflow start inputData w []
                       = Some (w3,
                           tr @ [Instantiated a (extractCredentials a workflow),
                                 Executed a inp (Inr r),
                                 Instantiated b (extractCredentials b workflow),
                                 Executed b (data_or_empty r) out], result))))"
proof -
  let ?tr' = "tr @ [Instantiated a (extractCredentials a workflow), Executed a inp (Inr r)]"
  from follow_first_resolvable[OF conn dangling res] obtain rest0 where
    nx: "getNextNodes workflow (id_n a) = Inr (b # rest0)" by blast
  from reg ctor exec ok nx
  have st: "chain_step reg workflow a inp w1 =
           Continue w2 [Instantiated a (extractCredentials a workflow), Executed a inp (Inr r)]
             b (data_or_empty r)"
    by (rule chain_step_success)
  from arr st have arr': "arrival reg workflow start inputData w (Suc k)
           = Some (b, data_or_empty r, w2, ?tr')" by simp
  have run: "executeNodeChain reg workflow start inputData w []
           = executeNodeChain reg workflow b (data_or_empty r) w2 ?tr'"
    by (rule arrival_run[OF arr'])
  have third: "(\<forall>w' trf result.
                  executeNodeChain reg workflow start inputData w [] = Some (w', trf, result)
                  \<longrightarrow> (\<exists>rest. trf =
                         tr @ [Instantiated a (extractCredentials a workflow),
                               Executed a inp (Inr r),
                               Instantiated b (extractCredentials b workflow),
                               Executed b (data_or_empty r) out] @ rest))
               \<and> (\<forall>nxt d2 w4 tr2.
                  arrival reg workflow start inputData w (Suc (Suc k)) = Some (nxt, d2, w4, tr2)
                  \<longrightarrow> tr2 =
                         tr @ [Instantiated a (extractCredentials a workflow),
                               Executed a inp (Inr r),
                               Instantiated b (extractCredentials b workflow),
                               Executed b (data_or_empty r) out])
               \<and> ((\<exists>nxt d2.
                     arrival reg workflow start inputData w (Suc (Suc k))
                       = Some (nxt, d2, w3,
                           tr @ [Instantiated a (extractCredentials a workflow),
                                 Executed a inp (Inr r),
                                 Instantiated b (extractCredentials b workflow),
                                 Executed b (data_or_empty r) out]))
                  \<or> (\<exists>result.
                     executeNodeChain reg workflow start inputData w []
                       = Some (w3,
                           tr @ [Instantiated a (extractCredentials a workflow),
                                 Executed a inp (Inr r),
                                 Instantiated b (extractCredentials b workflow),
                                 Executed b (data_or_empty r) out], result)))"
    if b: "reg (type_n b) = Some NodeClassB
           \<and> NodeClassB b (extractCredentials b workflow) = Inr instB
           \<and> execute instB w2 (data_or_empty r) = (w3, out)"
    for NodeClassB instB w3 out
  proof (intro conjI allI impI)
    from b have ev: "step_events (chain_step reg workflow b (data_or_empty r) w2) =
           [Instantiated b (extractCredentials b workflow), Executed b (data_or_empty r) out]"
      by (simp add: chain_step_events)
    {
      fix w' trf result
      assume "executeNodeChain reg workflow start inputData w [] = Some (w', trf, result)"
      with run have "executeNodeChain reg workflow b (data_or_empty r) w2 ?tr' = Some (w', trf, result)"
        by simp
      then obtain evs where trf: "trf = ?tr' @ evs"
        and cr: "chain_run reg workflow b (data_or_empty r) w2 evs w' result"
        by (auto simp: executeNodeChain_Some_iff)
      from chain_run_begins[OF cr] ev obtain rest where
        "evs = [Instantiated b (extractCredentials b workflow), Executed b (data_or_empty r) out] @ rest"
        by auto
      with trf show "\<exists>rest. trf =
                         tr @ [Instantiated a (extractCredentials a workflow),
                               Executed a inp (Inr r),
                               Instantiated b (extractCredentials b workflow),
                               Executed b (data_or_empty r) out] @ rest"
        by simp
    }
    {
      fix nxt d2 w4 tr2
      assume "arrival reg workflow start inputData w (Suc (Suc k)) = Some (nxt, d2, w4, tr2)"
      from arrival_Suc_trace[OF arr' this] ev
      show "tr2 = tr @ [Instantiated a (extractCredentials a workflow),
                               Executed a inp (Inr r),
                               Instantiated b (extractCredentials b workflow),
                               Executed b (data_or_empty r) out]"
        by simp
    }
    {
      let ?four = "tr @ [Instantiated a (extractCredentials a workflow),
                               Executed a inp (Inr r),
                               Instantiated b (extractCredentials b workflow),
                               Executed b (data_or_empty r) out]"
      from b have rb: "reg (type_n b) = Some NodeClassB"
        and cb: "NodeClassB b (extractCredentials b workflow) = Inr instB"
        and eb: "execute instB w2 (data_or_empty r) = (w3, out)" by simp_all
      from rb cb eb
      have "(\<exists>nxt d2. chain_step reg workflow b (data_or_empty r) w2 =
            Continue w3 [Instantiated b (extractCredentials b workflow),
                         Executed b (data_or_empty r) out] nxt d2)
       \<or> (\<exists>res. chain_step reg workflow b (data_or_empty r) w2 =
            Finished w3 [Instantiated b (extractCredentials b workflow),
                         Executed b (data_or_empty r) out] res)"
        by (rule chain_step_executes)
      then show "(\<exists>nxt d2.
                     arrival reg workflow start inputData w (Suc (Suc k))
                       = Some (nxt, d2, w3,
                           tr @ [Instantiated a (extractCredentials a workflow),
                                 Executed a inp (Inr r),
                                 Instantiated b (extractCredentials b workflow),
                                 Executed b (data_or_empty r) out]))
                  \<or> (\<exists>result.
                     executeNodeChain reg workflow start inputData w []
                       = Some (w3,
                           tr @ [Instantiated a (extractCredentials a workflow),
                                 Executed a inp (Inr r),
                                 Instantiated b (extractCredentials b workflow),
                                 Executed b (data_or_empty r) out], result))"
      proof
        assume "\<exists>nxt d2. chain_step reg workflow b (data_or_empty r) w2 =
            Continue w3 [Instantiated b (extractCredentials b workflow),
                         Executed b (data_or_empty r) out] nxt d2"
        then obtain nxt d2 where st2: "chain_step reg workflow b (data_or_empty r) w2 =
            Continue w3 [Instantiated b (extractCredentials b workflow),
                         Executed b (data_or_empty r) out] nxt d2" by blast
        have "arrival reg workflow start inputData w (Suc (Suc k)) = Some (nxt, d2, w3, ?four)"
          by (simp only: arrival.simps(2)[of _ _ _ _ _ "Suc k"] arr') (simp add: st2)
        then show ?thesis by blast
      next
        assume "\<exists>res. chain_step reg workflow b (data_or_empty r) w2 =
            Finished w3 [Instantiated b (extractCredentials b workflow),
                         Executed b (data_or_empty r) out] res"
        then obtain res where st2: "chain_step reg workflow b (data_or_empty r) w2 =
            Finished w3 [Instantiated b (extractCredentials b workflow),
                         Executed b (data_or_empty r) out] res" by blast
        from arrival_finished(1)[OF arr' st2]
        have "executeNodeChain reg workflow start inputData w [] = Some (w3, ?four, res)" by simp
        then show ?thesis by blast
      qed
    }
  qed
  from arr' run third show ?thesis by blast
qed

subsection \<open>Cycles and termination\<close>















lemmas example_defs =
  example_node_def example_connection_def example_workflow_def EchoNode_def BoomNode_def
  CrashNode_def OpaqueNode_def
  example_registry_def registerNode_def example_clock_def

lemmas engine_defs =
  executeWorkflow_unfold tryBody_def findStartNode_def connectedNodes_def
  executeNodeChain_step chain_step_def createNodeInstance_def extractCredentials_def
  getNextNodes_def Object_prototype_properties_def data_or_empty_def error_text_def createSuccessResult_def createErrorResult_def
  initial_execution_def Let_def

subsection \<open>Evaluated runs\<close>

lemma show_nat_7: "show_nat 7 = ''7''"
  by (simp add: show_nat.simps digit_char_def)

lemma run_echo:
  "executeWorkflow example_registry example_clock workflow_echo [''x'' \<mapsto> JNum ''1''] w =
     Some (w,
       [Instantiated (example_node ''n1'' ''echo'') Map.empty,
        Executed (example_node ''n1'' ''echo'') [''x'' \<mapsto> JNum ''1'']
          (Inr \<lparr>success = True, data_r = Some [''x'' \<mapsto> JNum ''1''], error_r = None\<rparr>)],
       Inr \<lparr>id_e = ''exec_7'', status = Success, startTime = 7, endTime = Some 9,
            data = [''x'' \<mapsto> JNum ''1''], error = None\<rparr>)"
  by (simp add: workflow_echo_def example_defs engine_defs show_nat_7)

lemma run_boom:
  "executeWorkflow example_registry example_clock workflow_boom Map.empty w =
     Some (w,
       [Instantiated (example_node ''n1'' ''boom'') Map.empty,
        Executed (example_node ''n1'' ''boom'') Map.empty
          (Inr \<lparr>success = False, data_r = None, error_r = Some ''boom''\<rparr>)],
       Inr \<lparr>id_e = ''exec_7'', status = Error, startTime = 7, endTime = Some 9,
            data = Map.empty, error = Some ''Node execution failed: boom''\<rparr>)"
  by (simp add: workflow_boom_def example_defs engine_defs show_nat_7)

lemma run_fan:
  "executeWorkflow example_registry example_clock workflow_fan Map.empty w =
     Some (w,
       [Instantiated (example_node ''a'' ''echo'') Map.empty,
        Executed (example_node ''a'' ''echo'') Map.empty
          (Inr \<lparr>success = True, data_r = Some Map.empty, error_r = None\<rparr>),
        Instantiated (example_node ''b'' ''echo'') Map.empty,
        Executed (example_node ''b'' ''echo'') Map.empty
          (Inr \<lparr>success = True, data_r = Some Map.empty, error_r = None\<rparr>),
        Instantiated (example_node ''c'' ''echo'') Map.empty,
        Executed (example_node ''c'' ''echo'') Map.empty
          (Inr \<lparr>success = True, data_r = Some Map.empty, error_r = None\<rparr>)],
       Inr \<lparr>id_e = ''exec_7'', status = Success, startTime = 7, endTime = Some 9,
            data = Map.empty, error = None\<rparr>)"
  by (simp add: workflow_fan_def example_defs engine_defs show_nat_7)

subsection \<open>Node results and credentials\<close>

lemma spread_last_input_wins: "input_wins own inputData (spread_last own inputData)"
  by (simp add: input_wins_def spread_last_def map_add_def split: option.split)

text \<open>
  Claim C4, as the code has it. When \<open>execute\<close> of a node of the repository succeeds
  (Android, Google Chat, Jira with either operation, Google Drive), the result data is the
  shallow merge of the node's own output with the input data bag in which the input wins:
  every key of the input keeps the input's value, and the node's own value appears only
  under keys the input does not have.
\<close>

theorem node_result_input_keys_win:
  "(AndroidNode_execute cwd js_times execAsync n creds w inputData = (w', Inr r) \<and> success r \<longrightarrow>
      (\<exists>projectPath stdout stderr d. data_r r = Some d
         \<and> input_wins (AndroidNode_output (getParameter n ''command'' JUndefined) projectPath stdout stderr)
              inputData d))
   \<and> (GoogleChatNode_execute loadChatAgent n creds w inputData = (w', Inr r) \<and> success r \<longrightarrow>
      (\<exists>result d. data_r r = Some d
         \<and> input_wins (GoogleChatNode_output result (getParameter n ''messageText'' JUndefined)
                         (getParameter n ''threadId'' JUndefined))
              inputData d))
   \<and> (JiraNode_execute fetchTicket searchIssues n creds w inputData = (w', Inr r) \<and> success r \<longrightarrow>
      (\<exists>d. data_r r = Some d
         \<and> ((\<exists>ticket. input_wins (JiraNode_ticket_output ticket) inputData d)
            \<or> (\<exists>tickets totalCount.
                  input_wins (JiraNode_search_output tickets totalCount
                                (getParameter n ''searchQuery'' JUndefined))
                    inputData d))))
   \<and> (GoogleDriveNode_execute loadDriveAgent basename n creds w inputData = (w', Inr r) \<and> success r \<longrightarrow>
      (\<exists>message d. data_r r = Some d
         \<and> input_wins (GoogleDriveNode_output message) inputData d))"
proof (intro conjI impI)
  assume "AndroidNode_execute cwd js_times execAsync n creds w inputData = (w', Inr r) \<and> success r"
  then show "\<exists>projectPath stdout stderr d. data_r r = Some d
         \<and> input_wins (AndroidNode_output (getParameter n ''command'' JUndefined) projectPath stdout stderr)
              inputData d"
    by (auto simp: AndroidNode_execute_def catch_to_error_result_def Let_def createSuccessResult_def
          createErrorResult_def
        split: if_splits prod.splits sum.splits)
       (blast intro: spread_last_input_wins)+
next
  assume "GoogleChatNode_execute loadChatAgent n creds w inputData = (w', Inr r) \<and> success r"
  then show "\<exists>result d. data_r r = Some d
         \<and> input_wins (GoogleChatNode_output result (getParameter n ''messageText'' JUndefined)
                         (getParameter n ''threadId'' JUndefined))
              inputData d"
    by (auto simp: GoogleChatNode_execute_def GoogleChatNode_sendMessage_def
          catch_to_error_result_def Let_def createSuccessResult_def createErrorResult_def
        split: if_splits prod.splits sum.splits)
       (blast intro: spread_last_input_wins)+
next
  assume "JiraNode_execute fetchTicket searchIssues n creds w inputData = (w', Inr r) \<and> success r"
  then show "\<exists>d. data_r r = Some d
         \<and> ((\<exists>ticket. input_wins (JiraNode_ticket_output ticket) inputData d)
            \<or> (\<exists>tickets totalCount.
                  input_wins (JiraNode_search_output tickets totalCount
                                (getParameter n ''searchQuery'' JUndefined))
                    inputData d))"
    by (auto simp: JiraNode_execute_def JiraNode_getTicket_def JiraNode_searchTickets_def
          catch_to_error_result_def Let_def createSuccessResult_def createErrorResult_def
        split: if_splits prod.splits sum.splits)
       (blast intro: spread_last_input_wins)+
next
  assume "GoogleDriveNode_execute loadDriveAgent basename n creds w inputData = (w', Inr r) \<and> success r"
  then show "\<exists>message d. data_r r = Some d
         \<and> input_wins (GoogleDriveNode_output message) inputData d"
    by (auto simp: GoogleDriveNode_execute_def GoogleDriveNode_uploadFileWithAgent_def
          catch_to_error_result_def Let_def createSuccessResult_def createErrorResult_def
        split: if_splits prod.splits sum.splits)
       (blast intro: spread_last_input_wins)+
qed

lemma android_run_eval:
  "android_run =
     ((), Inr (createSuccessResult
        (spread_last (AndroidNode_output (JStr ''yarn build'') (JStr ''/app'') (JStr ''built'') (JStr []))
           [''command'' \<mapsto> JStr ''ls''])))"
  by (simp add: android_run_def AndroidNode_execute_def catch_to_error_result_def Let_def
        getParameter_def android_node_def example_execAsync_def example_times_def)

text \<open>
  C4 as stated fails: the Android node with parameter \<open>command = "yarn build"\<close>, run on
  the input \<open>{"command": "ls"}\<close>, succeeds with \<open>command = "ls"\<close> in its result. The
  key is in both bags and the node's own value is lost.
\<close>

theorem android_input_key_overrides_own:
  "result_success android_run
   \<and> getParameter android_node ''command'' JUndefined = JStr ''yarn build''
   \<and> result_field android_run ''command'' = Some (JStr ''ls'')"
  by (simp add: android_run_eval result_success_def result_field_def createSuccessResult_def
        spread_last_def getParameter_def android_node_def)

text \<open>
  Claim C8. The constructor of a node receives the node definition and exactly its
  credentials bag, the empty bag when it has none; this holds for every constructor call
  and so for every instantiation recorded in a run. For each node type that declares
  credentials (Jira, Google Chat, Google Drive), \<open>execute\<close> on an instance whose bag
  lacks a declared credential returns, before any I/O, a failure result whose error names
  that credential.
\<close>

theorem node_credentials_verbatim_and_required:
  "(\<forall>NodeClass. reg (type_n n) = Some NodeClass \<longrightarrow>
      createNodeInstance reg n workflow =
        ([Instantiated n (case credentials n of None \<Rightarrow> Map.empty | Some b \<Rightarrow> b)],
         NodeClass n (case credentials n of None \<Rightarrow> Map.empty | Some b \<Rightarrow> b)))
   \<and> (\<forall>w' tr out m c. executeWorkflow reg clk workflow inputData w = Some (w', tr, out)
         \<longrightarrow> Instantiated m c \<in> set tr
         \<longrightarrow> c = (case credentials m of None \<Rightarrow> Map.empty | Some b \<Rightarrow> b))
   \<and> (\<forall>cred \<in> set JiraNode_credentials. creds cred = None \<longrightarrow>
         JiraNode_execute fetchTicket searchIssues n creds w inputData
           = (w, Inr \<lparr>success = False, data_r = None,
                      error_r = Some (''Required credential '' @ quoted cred @ '' is missing'')\<rparr>))
   \<and> (\<forall>cred \<in> set GoogleChatNode_credentials. creds cred = None \<longrightarrow>
         GoogleChatNode_execute loadChatAgent n creds w inputData
           = (w, Inr \<lparr>success = False, data_r = None,
                      error_r = Some (''Required credential '' @ quoted cred @ '' is missing'')\<rparr>))
   \<and> (\<forall>cred \<in> set GoogleDriveNode_credentials. creds cred = None \<longrightarrow>
         GoogleDriveNode_execute loadDriveAgent basename n creds w inputData
           = (w, Inr \<lparr>success = False, data_r = None,
                      error_r = Some (''Required credential '' @ quoted cred @ '' is missing'')\<rparr>))"
proof (intro conjI)
  show "\<forall>NodeClass. reg (type_n n) = Some NodeClass \<longrightarrow>
      createNodeInstance reg n workflow =
        ([Instantiated n (case credentials n of None \<Rightarrow> Map.empty | Some b \<Rightarrow> b)],
         NodeClass n (case credentials n of None \<Rightarrow> Map.empty | Some b \<Rightarrow> b))"
    by (simp add: createNodeInstance_def extractCredentials_def Let_def)
next
  show "\<forall>w' tr out m c. executeWorkflow reg clk workflow inputData w = Some (w', tr, out)
         \<longrightarrow> Instantiated m c \<in> set tr
         \<longrightarrow> c = (case credentials m of None \<Rightarrow> Map.empty | Some b \<Rightarrow> b)"
  proof (intro allI impI)
    fix w' tr out m c
    assume run: "executeWorkflow reg clk workflow inputData w = Some (w', tr, out)"
      and ev: "Instantiated m c \<in> set tr"
    from run obtain res where tb: "tryBody reg workflow inputData w = Some (w', tr, res)"
      by (auto simp: executeWorkflow_unfold split: option.splits prod.splits sum.splits)
    from tb show "c = (case credentials m of None \<Rightarrow> Map.empty | Some b \<Rightarrow> b)"
    proof (cases rule: tryBody_Some_cases)
      case no_start
      with ev show ?thesis by simp
    next
      case (chain startNode)
      from chain(2) ev show ?thesis by (rule chain_run_credentials)
    qed
  qed
next
  show "\<forall>cred \<in> set JiraNode_credentials. creds cred = None \<longrightarrow>
         JiraNode_execute fetchTicket searchIssues n creds w inputData
           = (w, Inr \<lparr>success = False, data_r = None,
                      error_r = Some (''Required credential '' @ quoted cred @ '' is missing'')\<rparr>)"
    by (auto simp: JiraNode_credentials_def JiraNode_execute_def getCredential_def
          catch_to_error_result_def createErrorResult_def)
next
  show "\<forall>cred \<in> set GoogleChatNode_credentials. creds cred = None \<longrightarrow>
         GoogleChatNode_execute loadChatAgent n creds w inputData
           = (w, Inr \<lparr>success = False, data_r = None,
                      error_r = Some (''Required credential '' @ quoted cred @ '' is missing'')\<rparr>)"
    by (auto simp: GoogleChatNode_credentials_def GoogleChatNode_execute_def getCredential_def
          catch_to_error_result_def createErrorResult_def)
next
  show "\<forall>cred \<in> set GoogleDriveNode_credentials. creds cred = None \<longrightarrow>
         GoogleDriveNode_execute loadDriveAgent basename n creds w inputData
           = (w, Inr \<lparr>success = False, data_r = None,
                      error_r = Some (''Required credential '' @ quoted cred @ '' is missing'')\<rparr>)"
    by (auto simp: GoogleDriveNode_credentials_def GoogleDriveNode_execute_def getCredential_def
          catch_to_error_result_def createErrorResult_def)
qed

subsection \<open>Scenarios\<close>

lemma find_Some_holds: "find P xs = Some x \<Longrightarrow> P x"
  by (induction xs) (auto split: if_splits)

text \<open>
  Claim C7. The definition with the single node \<open>n1\<close> of type \<open>echo\<close> and no outgoing
  connection (no entry in the connections map, or an empty one), run on
  \<open>{"x": 1}\<close> by an engine on which \<open>echo\<close> is registered, yields a record with status
  \<open>success\<close> and data \<open>{"x": 1}\<close>.
\<close>

theorem echo_scenario:
  "(\<exists>tr ex. executeWorkflow
       (registerNode (WorkflowEngine_nodeRegistry fetchTicket searchIssues) ''echo'' EchoNode)
       clk workflow_echo [''x'' \<mapsto> JNum ''1''] w = Some (w, tr, Inr ex)
      \<and> status ex = Success \<and> data ex = [''x'' \<mapsto> JNum ''1''])
   \<and> (\<exists>tr ex. executeWorkflow
       (registerNode (WorkflowEngine_nodeRegistry fetchTicket searchIssues) ''echo'' EchoNode)
       clk workflow_echo_end [''x'' \<mapsto> JNum ''1''] w = Some (w, tr, Inr ex)
      \<and> status ex = Success \<and> data ex = [''x'' \<mapsto> JNum ''1''])"
  by (simp add: workflow_echo_def workflow_echo_end_def WorkflowEngine_nodeRegistry_def
        example_defs engine_defs)

text \<open>
  C1 on examples: \<open>n1 \<rightarrow> n2\<close> starts at \<open>n1\<close>; a single node with a self-loop and the
  definition without nodes both end with the error record.
\<close>

theorem findStartNode_first_unreferenced_witness:
  "findStartNode workflow_boom = Some (example_node ''n1'' ''boom'')
   \<and> findStartNode workflow_selfloop = None
   \<and> (\<exists>ex. executeWorkflow (example_registry :: unit nodeRegistry) example_clock
               workflow_selfloop Map.empty () = Some ((), [], Inr ex)
         \<and> status ex = Error \<and> error ex = Some ''No start node found in workflow'')
   \<and> (\<exists>ex. executeWorkflow (example_registry :: unit nodeRegistry) example_clock
               workflow_empty Map.empty () = Some ((), [], Inr ex)
         \<and> status ex = Error \<and> error ex = Some ''No start node found in workflow'')"
proof -
  have a: "\<exists>pre post. nodes workflow_boom = pre @ example_node ''n1'' ''boom'' # post
             \<and> \<not> is_connection_target workflow_boom (id_n (example_node ''n1'' ''boom''))
             \<and> (\<forall>m \<in> set pre. is_connection_target workflow_boom (id_n m))"
    by (rule exI[of _ "[]"], rule exI[of _ "[example_node ''n2'' ''echo'']"])
       (simp add: workflow_boom_def example_defs is_connection_target_def)
  have b: "\<forall>m \<in> set (nodes workflow_selfloop). is_connection_target workflow_selfloop (id_n m)"
    by (simp add: workflow_selfloop_def example_defs is_connection_target_def)
  have c: "\<forall>m \<in> set (nodes workflow_empty). is_connection_target workflow_empty (id_n m)"
    by (simp add: workflow_empty_def example_defs)
  from findStartNode_first_unreferenced[where workflow = workflow_boom and s = "example_node ''n1'' ''boom''",
            THEN conjunct1, THEN iffD2, OF a]
  have "findStartNode workflow_boom = Some (example_node ''n1'' ''boom'')" .
  moreover from findStartNode_first_unreferenced[where workflow = workflow_selfloop
            and reg = "example_registry :: unit nodeRegistry" and clk = example_clock
            and inputData = Map.empty and w = "()", THEN conjunct2, THEN mp, OF b]
  have "findStartNode workflow_selfloop = None
   \<and> (\<exists>ex. executeWorkflow (example_registry :: unit nodeRegistry) example_clock
               workflow_selfloop Map.empty () = Some ((), [], Inr ex)
         \<and> status ex = Error \<and> error ex = Some ''No start node found in workflow'')" .
  moreover from findStartNode_first_unreferenced[where workflow = workflow_empty
            and reg = "example_registry :: unit nodeRegistry" and clk = example_clock
            and inputData = Map.empty and w = "()", THEN conjunct2, THEN mp, OF c]
  have "findStartNode workflow_empty = None
   \<and> (\<exists>ex. executeWorkflow (example_registry :: unit nodeRegistry) example_clock
               workflow_empty Map.empty () = Some ((), [], Inr ex)
         \<and> status ex = Error \<and> error ex = Some ''No start node found in workflow'')" .
  ultimately show ?thesis by blast
qed

text \<open>C7 with the clock, the outside world and the Jira methods fixed.\<close>

theorem echo_scenario_witness:
  "\<exists>tr ex. executeWorkflow
       (registerNode (WorkflowEngine_nodeRegistry example_fetchTicket example_searchIssues) ''echo'' EchoNode)
       example_clock workflow_echo [''x'' \<mapsto> JNum ''1''] () = Some ((), tr, Inr ex)
      \<and> status ex = Success \<and> data ex = [''x'' \<mapsto> JNum ''1'']"
  by (rule echo_scenario[where fetchTicket = example_fetchTicket and searchIssues = example_searchIssues
        and clk = example_clock and w = "()", THEN conjunct1])

lemma arrival_boom_loop:
  "arrival example_registry workflow_boom_loop (example_node ''s'' ''echo'') Map.empty w (Suc 0)
     = Some (example_node ''a'' ''boom'', Map.empty, w,
             [Instantiated (example_node ''s'' ''echo'') Map.empty,
              Executed (example_node ''s'' ''echo'') Map.empty
                (Inr \<lparr>success = True, data_r = Some Map.empty, error_r = None\<rparr>)])"
  by (simp add: workflow_boom_loop_def example_defs engine_defs)

text \<open>
  C2 on \<open>s \<rightarrow> [a]\<close>, \<open>a \<rightarrow> [a]\<close> where \<open>s\<close> echoes and \<open>a\<close> reports \<open>boom\<close>: the
  walker reaches \<open>a\<close> in its second call, the run returns the error record with
  \<open>boom\<close>, and the declared successor of \<open>a\<close> is never entered.
\<close>

theorem failed_node_aborts_run_witness:
  "findStartNode workflow_boom_loop = Some (example_node ''s'' ''echo'')
   \<and> arrival example_registry workflow_boom_loop (example_node ''s'' ''echo'') Map.empty () (Suc 0)
       = Some (example_node ''a'' ''boom'', Map.empty, (),
             [Instantiated (example_node ''s'' ''echo'') Map.empty,
              Executed (example_node ''s'' ''echo'') Map.empty
                (Inr \<lparr>success = True, data_r = Some Map.empty, error_r = None\<rparr>)])
   \<and> (\<exists>ex. executeWorkflow example_registry example_clock workflow_boom_loop Map.empty ()
         = Some ((),
             [Instantiated (example_node ''s'' ''echo'') Map.empty,
              Executed (example_node ''s'' ''echo'') Map.empty
                (Inr \<lparr>success = True, data_r = Some Map.empty, error_r = None\<rparr>),
              Instantiated (example_node ''a'' ''boom'') Map.empty,
              Executed (example_node ''a'' ''boom'') Map.empty
                (Inr \<lparr>success = False, data_r = None, error_r = Some ''boom''\<rparr>)],
             Inr ex)
        \<and> status ex = Error \<and> error ex = Some ''Node execution failed: boom'')
   \<and> arrival example_registry workflow_boom_loop (example_node ''s'' ''echo'') Map.empty ()
         (Suc (Suc 0)) = None"
proof -
  let ?a = "example_node ''a'' ''boom''"
  let ?r = "\<lparr>success = False, data_r = None, error_r = Some ''boom''\<rparr>"
  have fs: "findStartNode workflow_boom_loop = Some (example_node ''s'' ''echo'')"
    by (simp add: workflow_boom_loop_def example_defs findStartNode_def connectedNodes_def)
  note arr = arrival_boom_loop[of "()"]
  have reg: "(example_registry :: unit nodeRegistry) (type_n ?a) = Some BoomNode"
    by (simp add: example_defs)
  have ctor: "(BoomNode :: unit NodeConstructor) ?a (extractCredentials ?a workflow_boom_loop)
      = Inr \<lparr>node_b = ?a, credentials_b = Map.empty,
              execute = (\<lambda>w inputData. (w, Inr ?r))\<rparr>"
    by (simp add: example_defs extractCredentials_def createErrorResult_def)
  have ex: "execute \<lparr>node_b = ?a, credentials_b = Map.empty,
              execute = (\<lambda>w inputData. (w, Inr ?r))\<rparr> () Map.empty = ((), Inr ?r)"
    by simp
  have nok: "\<not> success ?r" by simp
  from failed_node_aborts_run[where clk = example_clock, THEN conjunct1, THEN mp, OF conjI[OF fs conjI[OF arr conjI[OF reg conjI[OF ctor conjI[OF ex nok]]]]]]
  show ?thesis using fs arr by (simp add: extractCredentials_def example_node_def)
qed

text \<open>
  C3 as stated fails on \<open>a \<rightarrow> [ghost, b, c]\<close>, \<open>b \<rightarrow> [c]\<close>: the first declared target
  of \<open>a\<close> names no node, so the engine runs the second declared target \<open>b\<close> after
  \<open>a\<close>; and the additional declared target \<open>c\<close> of \<open>a\<close> is instantiated and executed
  later in the same run, after \<open>b\<close>.
\<close>

theorem additional_declared_target_runs:
  "map_of (connections workflow_fan) ''a''
     = Some [example_connection ''ghost'', example_connection ''b'', example_connection ''c'']
   \<and> executeWorkflow example_registry example_clock workflow_fan Map.empty () =
     Some ((),
       [Instantiated (example_node ''a'' ''echo'') Map.empty,
        Executed (example_node ''a'' ''echo'') Map.empty
          (Inr \<lparr>success = True, data_r = Some Map.empty, error_r = None\<rparr>),
        Instantiated (example_node ''b'' ''echo'') Map.empty,
        Executed (example_node ''b'' ''echo'') Map.empty
          (Inr \<lparr>success = True, data_r = Some Map.empty, error_r = None\<rparr>),
        Instantiated (example_node ''c'' ''echo'') Map.empty,
        Executed (example_node ''c'' ''echo'') Map.empty
          (Inr \<lparr>success = True, data_r = Some Map.empty, error_r = None\<rparr>)],
       Inr \<lparr>id_e = ''exec_7'', status = Success, startTime = 7, endTime = Some 9,
            data = Map.empty, error = None\<rparr>)"
  using run_fan[of "()"] by (simp add: workflow_fan_def example_workflow_def)

text \<open>
  C3 (amended) on the same workflow: after \<open>a\<close> the walker is at \<open>b\<close>, the target
  behind the dangling \<open>ghost\<close>, and after \<open>b\<close> at \<open>c\<close>.
\<close>

theorem successor_is_first_resolvable_target_witness:
  "arrival example_registry workflow_fan (example_node ''a'' ''echo'') Map.empty () 0
     = Some (example_node ''a'' ''echo'', Map.empty, (), [])
   \<and> map_of (connections workflow_fan) ''a''
     = Some ([example_connection ''ghost''] @ example_connection ''b'' # [example_connection ''c''])
   \<and> find (\<lambda>m. id_n m = node (example_connection ''b'')) (nodes workflow_fan)
     = Some (example_node ''b'' ''echo'')
   \<and> arrival example_registry workflow_fan (example_node ''a'' ''echo'') Map.empty () (Suc 0)
     = Some (example_node ''b'' ''echo'', Map.empty, (),
             [Instantiated (example_node ''a'' ''echo'') Map.empty,
              Executed (example_node ''a'' ''echo'') Map.empty
                (Inr \<lparr>success = True, data_r = Some Map.empty, error_r = None\<rparr>)])
   \<and> arrival example_registry workflow_fan (example_node ''a'' ''echo'') Map.empty () (Suc (Suc 0))
     = Some (example_node ''c'' ''echo'', Map.empty, (),
             [Instantiated (example_node ''a'' ''echo'') Map.empty,
              Executed (example_node ''a'' ''echo'') Map.empty
                (Inr \<lparr>success = True, data_r = Some Map.empty, error_r = None\<rparr>),
              Instantiated (example_node ''b'' ''echo'') Map.empty,
              Executed (example_node ''b'' ''echo'') Map.empty
                (Inr \<lparr>success = True, data_r = Some Map.empty, error_r = None\<rparr>)])"
proof -
  let ?a = "example_node ''a'' ''echo''"
  let ?b = "example_node ''b'' ''echo''"
  let ?r = "\<lparr>success = True, data_r = Some Map.empty, error_r = None\<rparr>"
  let ?inst = "\<lambda>n. \<lparr>node_b = n, credentials_b = Map.empty,
              execute = (\<lambda>w inputData. (w :: unit, Inr (createSuccessResult inputData)))\<rparr>"
  have arr: "arrival example_registry workflow_fan ?a Map.empty () 0 = Some (?a, Map.empty, (), [])"
    by simp
  have reg: "(example_registry :: unit nodeRegistry) (type_n ?a) = Some EchoNode"
    by (simp add: example_defs)
  have ctor: "(EchoNode :: unit NodeConstructor) ?a (extractCredentials ?a workflow_fan) = Inr (?inst ?a)"
    by (simp add: example_defs extractCredentials_def)
  have ex: "execute (?inst ?a) () Map.empty = ((), Inr ?r)"
    by (simp add: createSuccessResult_def)
  have ok: "success ?r" by simp
  have conn: "map_of (connections workflow_fan) (id_n ?a)
     = Some ([example_connection ''ghost''] @ example_connection ''b'' # [example_connection ''c''])"
    by (simp add: workflow_fan_def example_workflow_def example_node_def)
  have dangling: "\<forall>p \<in> set [example_connection ''ghost''].
                    \<forall>m \<in> set (nodes workflow_fan). id_n m \<noteq> node p"
    by (simp add: workflow_fan_def example_workflow_def example_node_def example_connection_def)
  have res: "find (\<lambda>m. id_n m = node (example_connection ''b'')) (nodes workflow_fan) = Some ?b"
    by (simp add: workflow_fan_def example_workflow_def example_node_def example_connection_def)
  note t = successor_is_first_resolvable_target[OF arr reg ctor ex ok conn dangling res]
  have regb: "(example_registry :: unit nodeRegistry) (type_n ?b) = Some EchoNode"
    by (simp add: example_defs)
  have ctorb: "(EchoNode :: unit NodeConstructor) ?b (extractCredentials ?b workflow_fan) = Inr (?inst ?b)"
    by (simp add: example_defs extractCredentials_def)
  have exb: "execute (?inst ?b) () (data_or_empty ?r) = ((), Inr ?r)"
    by (simp add: createSuccessResult_def data_or_empty_def)
  have two: "arrival example_registry workflow_fan ?a Map.empty () (Suc (Suc 0))
     = Some (example_node ''c'' ''echo'', Map.empty, (),
             [Instantiated ?a Map.empty, Executed ?a Map.empty (Inr ?r),
              Instantiated ?b Map.empty, Executed ?b Map.empty (Inr ?r)])"
    by (simp add: workflow_fan_def example_defs engine_defs)
  from t[THEN conjunct1] conn res two arr
  show ?thesis by (simp add: extractCredentials_def data_or_empty_def example_node_def)
qed

lemma jira_run:
  "JiraNode_execute example_fetchTicket example_searchIssues jira_node
       [''jiraApi'' \<mapsto> JObj [(''domain'', JStr ''https://example.atlassian.net'')]] ()
       [''ticket'' \<mapsto> JStr ''mine'']
     = ((), Inr (createSuccessResult
          (spread_last
             (JiraNode_ticket_output (JObj [(''key'', JStr ''PROJ-1''), (''summary'', JStr ''Fix the build'')]))
             [''ticket'' \<mapsto> JStr ''mine''])))"
  by (simp add: JiraNode_execute_def JiraNode_getTicket_def catch_to_error_result_def Let_def
        getParameter_def getCredential_def jira_node_def
        example_fetchTicket_def)

text \<open>
  C4 (amended) on that run of the Android node, and on a Jira node fetching a ticket with
  the input \<open>{"ticket": "mine"}\<close>.
\<close>

theorem node_result_input_keys_win_witness:
  "AndroidNode_execute (JStr ''/app'') example_times example_execAsync android_node Map.empty ()
       [''command'' \<mapsto> JStr ''ls'']
     = ((), Inr (createSuccessResult
        (spread_last (AndroidNode_output (JStr ''yarn build'') (JStr ''/app'') (JStr ''built'') (JStr []))
           [''command'' \<mapsto> JStr ''ls''])))
   \<and> success (createSuccessResult
        (spread_last (AndroidNode_output (JStr ''yarn build'') (JStr ''/app'') (JStr ''built'') (JStr []))
           [''command'' \<mapsto> JStr ''ls'']))
   \<and> (\<exists>projectPath stdout stderr d.
         data_r (createSuccessResult
            (spread_last (AndroidNode_output (JStr ''yarn build'') (JStr ''/app'') (JStr ''built'') (JStr []))
               [''command'' \<mapsto> JStr ''ls''])) = Some d
       \<and> input_wins (AndroidNode_output (JStr ''yarn build'') projectPath stdout stderr)
            [''command'' \<mapsto> JStr ''ls''] d)
   \<and> JiraNode_execute example_fetchTicket example_searchIssues jira_node
       [''jiraApi'' \<mapsto> JObj [(''domain'', JStr ''https://example.atlassian.net'')]] ()
       [''ticket'' \<mapsto> JStr ''mine'']
     = ((), Inr (createSuccessResult
          (spread_last
             (JiraNode_ticket_output (JObj [(''key'', JStr ''PROJ-1''), (''summary'', JStr ''Fix the build'')]))
             [''ticket'' \<mapsto> JStr ''mine''])))
   \<and> (\<exists>d. data_r (createSuccessResult
          (spread_last
             (JiraNode_ticket_output (JObj [(''key'', JStr ''PROJ-1''), (''summary'', JStr ''Fix the build'')]))
             [''ticket'' \<mapsto> JStr ''mine''])) = Some d
         \<and> ((\<exists>ticket. input_wins (JiraNode_ticket_output ticket) [''ticket'' \<mapsto> JStr ''mine''] d)
            \<or> (\<exists>tickets totalCount.
                  input_wins (JiraNode_search_output tickets totalCount
                                (getParameter jira_node ''searchQuery'' JUndefined))
                    [''ticket'' \<mapsto> JStr ''mine''] d)))"
proof -
  let ?r = "createSuccessResult
        (spread_last (AndroidNode_output (JStr ''yarn build'') (JStr ''/app'') (JStr ''built'') (JStr []))
           [''command'' \<mapsto> JStr ''ls''])"
  let ?j = "createSuccessResult
          (spread_last
             (JiraNode_ticket_output (JObj [(''key'', JStr ''PROJ-1''), (''summary'', JStr ''Fix the build'')]))
             [''ticket'' \<mapsto> JStr ''mine''])"
  have run: "AndroidNode_execute (JStr ''/app'') example_times example_execAsync android_node
               Map.empty () [''command'' \<mapsto> JStr ''ls''] = ((), Inr ?r)"
    using android_run_eval by (simp add: android_run_def)
  have ok: "success ?r" by (simp add: createSuccessResult_def)
  have okj: "success ?j" by (simp add: createSuccessResult_def)
  have cmd: "getParameter android_node ''command'' JUndefined = JStr ''yarn build''"
    by (simp add: getParameter_def android_node_def)
  from node_result_input_keys_win[where cwd = "JStr ''/app''" and js_times = example_times
        and execAsync = example_execAsync and n = android_node and creds = Map.empty
        and w = "()" and inputData = "[''command'' \<mapsto> JStr ''ls'']" and w' = "()" and r = ?r,
        THEN conjunct1, THEN mp, OF conjI[OF run ok]]
  have a: "\<exists>projectPath stdout stderr d. data_r ?r = Some d
       \<and> input_wins (AndroidNode_output (JStr ''yarn build'') projectPath stdout stderr)
            [''command'' \<mapsto> JStr ''ls''] d"
    by (simp add: cmd)
  note b = node_result_input_keys_win[where fetchTicket = example_fetchTicket and searchIssues = example_searchIssues
        and n = jira_node
        and creds = "[''jiraApi'' \<mapsto> JObj [(''domain'', JStr ''https://example.atlassian.net'')]]"
        and w = "()" and inputData = "[''ticket'' \<mapsto> JStr ''mine'']" and w' = "()" and r = ?j,
        THEN conjunct2, THEN conjunct2, THEN conjunct1, THEN mp, OF conjI[OF jira_run okj]]
  show ?thesis by (intro conjI run ok a jira_run b)
qed

text \<open>C9 on the failing scenario.\<close>

theorem returned_status_success_or_error_witness:
  "executeWorkflow example_registry example_clock workflow_boom Map.empty () =
     Some ((),
       [Instantiated (example_node ''n1'' ''boom'') Map.empty,
        Executed (example_node ''n1'' ''boom'') Map.empty
          (Inr \<lparr>success = False, data_r = None, error_r = Some ''boom''\<rparr>)],
       Inr \<lparr>id_e = ''exec_7'', status = Error, startTime = 7, endTime = Some 9,
            data = Map.empty, error = Some ''Node execution failed: boom''\<rparr>)
   \<and> endTime \<lparr>id_e = ''exec_7'', status = Error, startTime = 7, endTime = Some 9,
            data = Map.empty, error = Some ''Node execution failed: boom''\<rparr> = Some 9"
proof -
  note run = run_boom[of "()"]
  from returned_status_success_or_error[OF run] show ?thesis using run by simp
qed

text \<open>C10 on the failing scenario with input \<open>{"x": 1}\<close>.\<close>

theorem error_record_keeps_inputData_witness:
  "executeWorkflow example_registry example_clock workflow_boom [''x'' \<mapsto> JNum ''1''] () =
     Some ((),
       [Instantiated (example_node ''n1'' ''boom'') Map.empty,
        Executed (example_node ''n1'' ''boom'') [''x'' \<mapsto> JNum ''1'']
          (Inr \<lparr>success = False, data_r = None, error_r = Some ''boom''\<rparr>)],
       Inr \<lparr>id_e = ''exec_7'', status = Error, startTime = 7, endTime = Some 9,
            data = [''x'' \<mapsto> JNum ''1''], error = Some ''Node execution failed: boom''\<rparr>)
   \<and> data \<lparr>id_e = ''exec_7'', status = Error, startTime = 7, endTime = Some 9,
            data = [''x'' \<mapsto> JNum ''1''], error = Some ''Node execution failed: boom''\<rparr>
       = [''x'' \<mapsto> JNum ''1'']"
proof -
  have run: "executeWorkflow example_registry example_clock workflow_boom [''x'' \<mapsto> JNum ''1''] () =
     Some ((),
       [Instantiated (example_node ''n1'' ''boom'') Map.empty,
        Executed (example_node ''n1'' ''boom'') [''x'' \<mapsto> JNum ''1'']
          (Inr \<lparr>success = False, data_r = None, error_r = Some ''boom''\<rparr>)],
       Inr \<lparr>id_e = ''exec_7'', status = Error, startTime = 7, endTime = Some 9,
            data = [''x'' \<mapsto> JNum ''1''], error = Some ''Node execution failed: boom''\<rparr>)"
    by (simp add: workflow_boom_def example_defs engine_defs show_nat_7)
  have st: "status \<lparr>id_e = ''exec_7'', status = Error, startTime = 7, endTime = Some 9,
            data = [''x'' \<mapsto> JNum ''1''], error = Some ''Node execution failed: boom''\<rparr> = Error"
    by simp
  from error_record_keeps_inputData[OF run st] show ?thesis using run by simp
qed

text \<open>
  C8 on examples: a Jira node without credentials, and the instantiation of the echo node.
\<close>

theorem node_credentials_verbatim_and_required_witness:
  "JiraNode_execute example_fetchTicket example_searchIssues (example_node ''jira-node-1'' ''jira'')
       Map.empty () Map.empty
     = ((), Inr \<lparr>success = False, data_r = None,
                 error_r = Some (''Required credential '' @ quoted ''jiraApi'' @ '' is missing'')\<rparr>)
   \<and> createNodeInstance (example_registry :: unit nodeRegistry) (example_node ''n1'' ''echo'')
        workflow_echo
     = ([Instantiated (example_node ''n1'' ''echo'') Map.empty],
        EchoNode (example_node ''n1'' ''echo'') Map.empty)"
proof -
  have j: "''jiraApi'' \<in> set JiraNode_credentials" by (simp add: JiraNode_credentials_def)
  have e: "(Map.empty :: WorkflowData) ''jiraApi'' = None" by simp
  have r: "(example_registry :: unit nodeRegistry) (type_n (example_node ''n1'' ''echo'')) = Some EchoNode"
    by (simp add: example_defs)
  note t = node_credentials_verbatim_and_required[where reg = "example_registry :: unit nodeRegistry" and n = "example_node ''n1'' ''echo''"
        and workflow = workflow_echo and creds = Map.empty
        and fetchTicket = example_fetchTicket and searchIssues = example_searchIssues and w = "()"
        and inputData = Map.empty]
  from t[THEN conjunct1, THEN spec, THEN mp, OF r]
  have a: "createNodeInstance (example_registry :: unit nodeRegistry) (example_node ''n1'' ''echo'')
        workflow_echo
     = ([Instantiated (example_node ''n1'' ''echo'') Map.empty],
        EchoNode (example_node ''n1'' ''echo'') Map.empty)"
    by (simp add: example_node_def)
  note u = node_credentials_verbatim_and_required[where n = "example_node ''jira-node-1'' ''jira''" and creds = Map.empty
        and fetchTicket = example_fetchTicket and searchIssues = example_searchIssues and w = "()"
        and inputData = Map.empty]
  from u[THEN conjunct2, THEN conjunct2, THEN conjunct1, THEN bspec, OF j, THEN mp, OF e] a
  show ?thesis by simp
qed













subsection \<open>Failure reporting\<close>










end
